theory Spec2Isabelle
  imports Complex_Main
begin

section \<open>Shared data model (src/types/index.ts and the schema in src/unnamed/part_001)\<close>

text \<open>
  Timestamps are the millisecond counts that \<open>new Date(s).getTime()\<close> yields for the
  TIMESTAMPTZ columns; a nullable column is an \<open>option\<close>. The clock reading
  \<open>new Date()\<close> is passed to every function as the parameter \<open>now\<close>.
\<close>

type_synonym timestamp = int

record Game =
  game_id :: string
  game_key :: string
  game_name :: string
  subsite_key :: string
  game_is_active :: bool
  current_round :: "int option"
  total_rounds :: "int option"
  round_state :: "string option"
  next_trade_deadline :: "timestamp option"
  current_round_start :: "timestamp option"
  current_round_end :: "timestamp option"
  sync_interval_minutes :: int
  last_synced_at :: "timestamp option"

record GameTrigger =
  trigger_id :: string
  trigger_game_id :: string
  trigger_type :: string
  braze_campaign_id :: string
  trigger_is_active :: bool
  last_triggered_at :: "timestamp option"
  last_triggered_round :: "int option"

subsection \<open>Template-string rendering of numbers\<close>

function string_of_nat :: "nat \<Rightarrow> string" where
  "string_of_nat n =
     (if n < 10 then [''0123456789'' ! n]
      else string_of_nat (n div 10) @ [''0123456789'' ! (n mod 10)])"
  by pat_completeness auto
termination
  by (relation "measure (\<lambda>n. n)") auto

declare string_of_nat.simps [simp del]

definition string_of_int :: "int \<Rightarrow> string" where
  "string_of_int i = (if i < 0 then ''-'' @ string_of_nat (nat (- i)) else string_of_nat (nat i))"

text \<open>\<open>`${x}`\<close> for a nullable number and a nullable string.\<close>

definition tpl_num :: "int option \<Rightarrow> string" where
  "tpl_num x = (case x of None \<Rightarrow> ''null'' | Some i \<Rightarrow> string_of_int i)"

definition tpl_str :: "string option \<Rightarrow> string" where
  "tpl_str x = (case x of None \<Rightarrow> ''null'' | Some s \<Rightarrow> s)"

section \<open>BrazeTriggerService (braze-trigger-service.ts, first part of src/unnamed/part_010)\<close>

definition DEADLINE_REMINDER_MIN_HOURS :: int where
  "DEADLINE_REMINDER_MIN_HOURS = 20"

definition DEADLINE_REMINDER_MAX_HOURS :: int where
  "DEADLINE_REMINDER_MAX_HOURS = 28"

definition BRAZE_REQUEST_TIMEOUT_MS :: nat where
  "BRAZE_REQUEST_TIMEOUT_MS = 30000"

record BrazeTriggerProperties =
  p_game_key :: string
  p_game_name :: string
  p_current_round :: "int option"
  p_total_rounds :: "int option"
  p_trade_deadline :: "timestamp option"
  p_trigger_type :: string

record BrazeApiResponse =
  dispatch_id :: "string option"
  message :: "string option"
  errors :: "string list option"

record TriggerResult =
  tr_success :: bool
  tr_triggered :: bool
  tr_message :: string
  tr_brazeResponse :: "BrazeApiResponse option"

record CheckResult =
  shouldTrigger :: bool
  reason :: string

subsection \<open>The campaign HTTP call and its possible outcomes\<close>

text \<open>
  The request that \<open>fetch\<close> is given: the URL, the bearer token, the JSON body, and the
  delay after which the abort timer armed beside it fires.
\<close>

record BrazeRequest =
  req_url :: string
  req_authorization :: string
  req_campaign_id :: string
  req_trigger_properties :: BrazeTriggerProperties
  req_broadcast :: bool
  req_abort_after_ms :: nat

text \<open>
  What awaiting \<open>fetch\<close> and then \<open>response.json()\<close> can produce: the abort timer
  fires (an error named AbortError), another Error is thrown (with its message), a value
  that is not an Error is thrown, or a response arrives with a status and a body that is
  either not JSON or a JSON object.
\<close>

datatype 'a json_body = InvalidJson | Json 'a

datatype 'a fetch_outcome =
    AbortError
  | ThrownError string
  | ThrownOther
  | Responded int "'a json_body"

definition response_ok :: "int \<Rightarrow> bool" where
  "response_ok status = (200 \<le> status \<and> status \<le> 299)"

record BrazeEnv =
  BRAZE_REST_ENDPOINT :: "string option"
  BRAZE_API_KEY :: "string option"
  braze_fetch :: "BrazeRequest \<Rightarrow> BrazeApiResponse fetch_outcome"

text \<open>\<open>process.env.X || ''\<close>\<close>

definition env_or_empty :: "string option \<Rightarrow> string" where
  "env_or_empty v = (case v of None \<Rightarrow> '''' | Some s \<Rightarrow> s)"

definition brazeApiUrl :: "BrazeEnv \<Rightarrow> string" where
  "brazeApiUrl env = env_or_empty (BRAZE_REST_ENDPOINT env)"

definition brazeApiKey :: "BrazeEnv \<Rightarrow> string" where
  "brazeApiKey env = env_or_empty (BRAZE_API_KEY env)"

record DispatchResult =
  d_success :: bool
  d_response :: "BrazeApiResponse option"
  d_error :: "string option"

text \<open>\<open>data.message || 'Braze API error'\<close>: an absent or empty message gives the default.\<close>

definition message_or :: "string option \<Rightarrow> string \<Rightarrow> string" where
  "message_or m dflt = (case m of None \<Rightarrow> dflt | Some s \<Rightarrow> (if s = '''' then dflt else s))"

definition braze_request :: "BrazeEnv \<Rightarrow> string \<Rightarrow> BrazeTriggerProperties \<Rightarrow> BrazeRequest" where
  "braze_request env campaignId triggerProperties =
     \<lparr> req_url = brazeApiUrl env @ ''/campaigns/trigger/send'',
       req_authorization = ''Bearer '' @ brazeApiKey env,
       req_campaign_id = campaignId,
       req_trigger_properties = triggerProperties,
       req_broadcast = True,
       req_abort_after_ms = BRAZE_REQUEST_TIMEOUT_MS \<rparr>"

text \<open>
  \<open>triggerBrazeCampaign\<close> returns its result together with the list of HTTP requests it
  performed (none or one).
\<close>

definition triggerBrazeCampaign ::
  "BrazeEnv \<Rightarrow> string \<Rightarrow> BrazeTriggerProperties \<Rightarrow> DispatchResult \<times> BrazeRequest list" where
  "triggerBrazeCampaign env campaignId triggerProperties =
     (if brazeApiUrl env = '''' \<or> brazeApiKey env = '''' then
        (\<lparr> d_success = True,
           d_response = Some \<lparr> dispatch_id = None,
                               message = Some ''Skipped - no Braze credentials'',
                               errors = None \<rparr>,
           d_error = None \<rparr>, [])
      else
        let req = braze_request env campaignId triggerProperties in
        (case braze_fetch env req of
           Responded status InvalidJson \<Rightarrow>
             \<lparr> d_success = False, d_response = None,
               d_error = Some ''Invalid response from Braze'' \<rparr>
         | Responded status (Json data) \<Rightarrow>
             if \<not> response_ok status then
               \<lparr> d_success = False, d_response = None,
                 d_error = Some (message_or (message data) ''Braze API error'') \<rparr>
             else
               \<lparr> d_success = True, d_response = Some data, d_error = None \<rparr>
         | AbortError \<Rightarrow>
             \<lparr> d_success = False, d_response = None,
               d_error = Some ''Braze request timeout'' \<rparr>
         | ThrownError msg \<Rightarrow>
             \<lparr> d_success = False, d_response = None, d_error = Some msg \<rparr>
         | ThrownOther \<Rightarrow>
             \<lparr> d_success = False, d_response = None, d_error = Some ''Unknown error'' \<rparr>,
         [req]))"

subsection \<open>Store writes issued by the service\<close>

datatype log_status = triggered | failed | skipped

record TriggerLogInsert =
  tl_game_id :: string
  tl_trigger_id :: string
  tl_trigger_type :: string
  tl_round_index :: int
  tl_status :: log_status
  tl_braze_response :: "BrazeApiResponse option"
  tl_error_message :: "string option"

text \<open>
  Everything \<open>processTrigger\<close> does to the outside world, in order: the HTTP requests of
  the dispatch, the row handed to \<open>trigger_logs.insert\<close> by \<open>logTrigger\<close>, and the
  \<open>game_triggers.update(...).eq('id', triggerId)\<close> of \<open>updateTriggerLastTriggered\<close>.
\<close>

datatype effect =
    HttpSend BrazeRequest
  | InsertTriggerLog TriggerLogInsert
  | UpdateTrigger string timestamp int

definition logTrigger ::
  "string \<Rightarrow> string \<Rightarrow> string \<Rightarrow> int \<Rightarrow> log_status \<Rightarrow> BrazeApiResponse option
     \<Rightarrow> string option \<Rightarrow> effect list" where
  "logTrigger gameId triggerId triggerType roundIndex status brazeResponse errorMessage =
     [InsertTriggerLog
        \<lparr> tl_game_id = gameId, tl_trigger_id = triggerId, tl_trigger_type = triggerType,
          tl_round_index = roundIndex, tl_status = status,
          tl_braze_response = brazeResponse, tl_error_message = errorMessage \<rparr>]"

definition updateTriggerLastTriggered :: "timestamp \<Rightarrow> string \<Rightarrow> int \<Rightarrow> effect list" where
  "updateTriggerLastTriggered now triggerId roundIndex = [UpdateTrigger triggerId now roundIndex]"

subsection \<open>Fire conditions\<close>

text \<open>
  \<open>differenceInHours\<close> of the date-fns library: the number of full hours between two
  dates, the millisecond difference divided by 3600000 and truncated towards zero.
\<close>

definition differenceInHours :: "timestamp \<Rightarrow> timestamp \<Rightarrow> int" where
  "differenceInHours dateLeft dateRight =
     (let diff = dateLeft - dateRight
      in if 0 \<le> diff then diff div 3600000 else - ((- diff) div 3600000))"

definition checkDeadlineReminder24h :: "timestamp \<Rightarrow> Game \<Rightarrow> GameTrigger \<Rightarrow> CheckResult" where
  "checkDeadlineReminder24h now game trigger =
     (case next_trade_deadline game of
        None \<Rightarrow> \<lparr> shouldTrigger = False, reason = ''No trade deadline set'' \<rparr>
      | Some deadline \<Rightarrow>
          let hoursUntilDeadline = differenceInHours deadline now in
          if hoursUntilDeadline < DEADLINE_REMINDER_MIN_HOURS
             \<or> hoursUntilDeadline > DEADLINE_REMINDER_MAX_HOURS then
            \<lparr> shouldTrigger = False,
              reason = ''Deadline is '' @ string_of_int hoursUntilDeadline @ ''h away (need ''
                 @ string_of_int DEADLINE_REMINDER_MIN_HOURS @ ''-''
                 @ string_of_int DEADLINE_REMINDER_MAX_HOURS @ ''h)'' \<rparr>
          else if last_triggered_round trigger = current_round game then
            \<lparr> shouldTrigger = False,
              reason = ''Already triggered for round '' @ tpl_num (current_round game) \<rparr>
          else \<lparr> shouldTrigger = True, reason = ''Deadline is within 24h window'' \<rparr>)"

definition checkRoundStarted :: "Game \<Rightarrow> GameTrigger \<Rightarrow> CheckResult" where
  "checkRoundStarted game trigger =
     (if round_state game \<noteq> Some ''CurrentOpen'' then
        \<lparr> shouldTrigger = False,
          reason = ''Round state is '' @ tpl_str (round_state game) @ '', not CurrentOpen'' \<rparr>
      else if last_triggered_round trigger = current_round game then
        \<lparr> shouldTrigger = False,
          reason = ''Already triggered for round '' @ tpl_num (current_round game) \<rparr>
      else \<lparr> shouldTrigger = True, reason = ''Round is now open'' \<rparr>)"

definition checkRoundEnded :: "Game \<Rightarrow> GameTrigger \<Rightarrow> CheckResult" where
  "checkRoundEnded game trigger =
     (if round_state game \<noteq> Some ''Ended'' \<and> round_state game \<noteq> Some ''EndedLastest'' then
        \<lparr> shouldTrigger = False,
          reason = ''Round state is '' @ tpl_str (round_state game) @ '', not Ended'' \<rparr>
      else if last_triggered_round trigger = current_round game then
        \<lparr> shouldTrigger = False,
          reason = ''Already triggered for round '' @ tpl_num (current_round game) \<rparr>
      else \<lparr> shouldTrigger = True, reason = ''Round has ended'' \<rparr>)"

definition checkTrigger :: "timestamp \<Rightarrow> Game \<Rightarrow> GameTrigger \<Rightarrow> CheckResult" where
  "checkTrigger now game trigger =
     (if trigger_type trigger = ''deadline_reminder_24h'' then
        checkDeadlineReminder24h now game trigger
      else if trigger_type trigger = ''round_started'' then checkRoundStarted game trigger
      else if trigger_type trigger = ''round_ended'' then checkRoundEnded game trigger
      else \<lparr> shouldTrigger = False,
             reason = ''Unknown trigger type: '' @ trigger_type trigger \<rparr>)"

subsection \<open>Processing one trigger\<close>

text \<open>\<open>game.current_round || 1\<close>: a null or zero round gives 1.\<close>

definition round_or_1 :: "int option \<Rightarrow> int" where
  "round_or_1 r = (case r of None \<Rightarrow> 1 | Some i \<Rightarrow> (if i = 0 then 1 else i))"

definition trigger_properties :: "Game \<Rightarrow> GameTrigger \<Rightarrow> BrazeTriggerProperties" where
  "trigger_properties game trigger =
     \<lparr> p_game_key = game_key game,
       p_game_name = game_name game,
       p_current_round = current_round game,
       p_total_rounds = total_rounds game,
       p_trade_deadline = next_trade_deadline game,
       p_trigger_type = trigger_type trigger \<rparr>"

definition processTrigger ::
  "BrazeEnv \<Rightarrow> timestamp \<Rightarrow> Game \<Rightarrow> GameTrigger \<Rightarrow> TriggerResult \<times> effect list" where
  "processTrigger env now game trigger =
     (let check = checkTrigger now game trigger in
      if \<not> shouldTrigger check then
        (\<lparr> tr_success = True, tr_triggered = False, tr_message = reason check,
           tr_brazeResponse = None \<rparr>, [])
      else
        let (result, sent) =
              triggerBrazeCampaign env (braze_campaign_id trigger)
                (trigger_properties game trigger);
            logged =
              logTrigger (game_id game) (trigger_id trigger) (trigger_type trigger)
                (round_or_1 (current_round game))
                (if d_success result then triggered else failed)
                (d_response result) (d_error result);
            updated =
              (if d_success result then
                 updateTriggerLastTriggered now (trigger_id trigger)
                   (round_or_1 (current_round game))
               else [])
        in (\<lparr> tr_success = d_success result,
              tr_triggered = True,
              tr_message =
                (if d_success result then ''Campaign triggered for '' @ trigger_type trigger
                 else ''Failed to trigger: ''
                        @ (case d_error result of None \<Rightarrow> ''undefined'' | Some e \<Rightarrow> e)),
              tr_brazeResponse = d_response result \<rparr>,
            map HttpSend sent @ logged @ updated))"

text \<open>
  The effect of an accepted \<open>game_triggers.update(...).eq('id', triggerId)\<close> on one row
  of the table, and of a whole list of writes.
\<close>

fun apply_effect :: "effect \<Rightarrow> GameTrigger \<Rightarrow> GameTrigger" where
  "apply_effect (UpdateTrigger tid ts r) t =
     (if trigger_id t = tid
      then t\<lparr> last_triggered_at := Some ts, last_triggered_round := Some r \<rparr> else t)"
| "apply_effect _ t = t"

definition trigger_after :: "effect list \<Rightarrow> GameTrigger \<Rightarrow> GameTrigger" where
  "trigger_after effs t = fold apply_effect effs t"

text \<open>The rows of \<open>trigger_logs\<close> that a list of writes inserts.\<close>

fun inserted_logs :: "effect list \<Rightarrow> TriggerLogInsert list" where
  "inserted_logs [] = []"
| "inserted_logs (InsertTriggerLog row # es) = row # inserted_logs es"
| "inserted_logs (_ # es) = inserted_logs es"

text \<open>
  \<open>processGameTriggers\<close>: the rows selected with \<open>game_id = game.id\<close> and
  \<open>is_active = true\<close> are processed one after the other; a failed select gives no
  results.
\<close>

definition processGameTriggers ::
  "BrazeEnv \<Rightarrow> timestamp \<Rightarrow> (string + GameTrigger list) \<Rightarrow> Game
     \<Rightarrow> (TriggerResult \<times> effect list) list" where
  "processGameTriggers env now game_triggers_table game =
     (case game_triggers_table of
        Inl err \<Rightarrow> []
      | Inr rows \<Rightarrow>
          map (processTrigger env now game)
            (filter (\<lambda>t. trigger_game_id t = game_id game \<and> trigger_is_active t) rows))"

subsection \<open>Sample games, triggers and environments\<close>

definition ex_game :: Game where
  "ex_game = \<lparr> game_id = ''g1'', game_key = ''allsvenskan'', game_name = ''Allsvenskan'',
     subsite_key = ''aftonbladet'', game_is_active = True, current_round = Some 5,
     total_rounds = Some 30, round_state = Some ''CurrentOpen'', next_trade_deadline = None,
     current_round_start = None, current_round_end = None, sync_interval_minutes = 60,
     last_synced_at = None \<rparr>"

definition ex_trigger :: GameTrigger where
  "ex_trigger = \<lparr> trigger_id = ''t1'', trigger_game_id = ''g1'',
     trigger_type = ''round_started'', braze_campaign_id = ''c1'', trigger_is_active = True,
     last_triggered_at = None, last_triggered_round = Some 5 \<rparr>"


definition ex_env :: "BrazeApiResponse fetch_outcome \<Rightarrow> BrazeEnv" where
  "ex_env outcome =
     \<lparr> BRAZE_REST_ENDPOINT = Some ''https://rest.example'', BRAZE_API_KEY = Some ''k'',
       braze_fetch = (\<lambda>_. outcome) \<rparr>"

definition ex_game_round0 :: Game where
  "ex_game_round0 = ex_game\<lparr> current_round := Some 0 \<rparr>"




definition ex_deadline_trigger :: GameTrigger where
  "ex_deadline_trigger =
     ex_trigger\<lparr> trigger_type := ''deadline_reminder_24h'', last_triggered_round := None \<rparr>"



definition ex_accepted :: BrazeApiResponse where
  "ex_accepted = \<lparr> dispatch_id = Some ''d1'', message = Some ''success'', errors = None \<rparr>"

section \<open>SwushClient (swush-client.ts, second part of src/unnamed/part_010)\<close>

definition DEFAULT_TIMEOUT_MS :: nat where
  "DEFAULT_TIMEOUT_MS = 30000"

definition RATE_LIMIT_DELAY_MS :: nat where
  "RATE_LIMIT_DELAY_MS = 100"

definition MAX_PAGE_SIZE :: int where
  "MAX_PAGE_SIZE = 10"

definition MAX_RETRIES :: nat where
  "MAX_RETRIES = 3"

definition RETRY_BASE_DELAY_MS :: nat where
  "RETRY_BASE_DELAY_MS = 1000"

record 'a SwushApiResponse =
  res_data :: "'a option"
  res_error :: "string option"
  res_status :: int

text \<open>
  The generic parameter of \<open>request<T>\<close> is not checked when the program runs: the data
  of a response is whatever JSON value the body holds. A JSON value is falsy in
  JavaScript when it is \<open>null\<close>, \<open>false\<close>, the number 0 or the empty string; every
  array and every object is truthy.
\<close>

datatype json =
    JNull
  | JBool bool
  | JNumber real
  | JString string
  | JArray "json list"
  | JObject "(string \<times> json) list"

fun js_truthy :: "json \<Rightarrow> bool" where
  "js_truthy JNull = False"
| "js_truthy (JBool b) = b"
| "js_truthy (JNumber n) = (n \<noteq> 0)"
| "js_truthy (JString s) = (s \<noteq> '''')"
| "js_truthy (JArray xs) = True"
| "js_truthy (JObject members) = True"

text \<open>
  What one \<open>fetch\<close> of the partner API can produce: the abort timer fires, an Error
  with a message is thrown (a transport failure), something that is not an Error is
  thrown, or a response arrives with its status, its status text and a body that is
  not JSON or is a JSON value.
\<close>

datatype swush_fetch =
    FetchAborted
  | FetchThrew string
  | FetchThrewOther
  | FetchResponse int string "json json_body"

text \<open>
  \<open>request\<close>. In the result, \<open>res_data = None\<close> stands for \<open>data: null\<close>, which is
  also what a body holding the JSON value \<open>null\<close> gives.
\<close>

definition request :: "nat \<Rightarrow> swush_fetch \<Rightarrow> json SwushApiResponse" where
  "request timeout outcome =
     (case outcome of
        FetchResponse status statusText body \<Rightarrow>
          if \<not> response_ok status then
            \<lparr> res_data = None,
              res_error = Some (''HTTP '' @ string_of_int status @ '': '' @ statusText),
              res_status = status \<rparr>
          else
            (case body of
               InvalidJson \<Rightarrow>
                 \<lparr> res_data = None,
                   res_error = Some ''Invalid JSON response from SWUSH API'',
                   res_status = 500 \<rparr>
             | Json data \<Rightarrow>
                 \<lparr> res_data = (if data = JNull then None else Some data),
                   res_error = None, res_status = status \<rparr>)
      | FetchAborted \<Rightarrow>
          \<lparr> res_data = None,
            res_error = Some (''Request timeout after '' @ string_of_nat timeout @ ''ms''),
            res_status = 408 \<rparr>
      | FetchThrew msg \<Rightarrow> \<lparr> res_data = None, res_error = Some msg, res_status = 500 \<rparr>
      | FetchThrewOther \<Rightarrow>
          \<lparr> res_data = None, res_error = Some ''Unknown error occurred'', res_status = 500 \<rparr>)"

text \<open>JavaScript truthiness of a nullable string: null and the empty string are falsy.\<close>

definition truthy :: "string option \<Rightarrow> bool" where
  "truthy s = (case s of None \<Rightarrow> False | Some t \<Rightarrow> t \<noteq> '''')"

text \<open>
  \<open>response.data && !response.error\<close>: the data must be a truthy value, not only
  present.
\<close>

definition is_success :: "json SwushApiResponse \<Rightarrow> bool" where
  "is_success response =
     ((case res_data response of None \<Rightarrow> False | Some data \<Rightarrow> js_truthy data)
      \<and> \<not> truthy (res_error response))"

definition isClientError :: "'a SwushApiResponse \<Rightarrow> bool" where
  "isClientError response = (res_status response \<ge> 400 \<and> res_status response < 500)"

definition isRetryableClientError :: "'a SwushApiResponse \<Rightarrow> bool" where
  "isRetryableClientError response = (res_status response = 408 \<or> res_status response = 429)"

text \<open>
  What \<open>requestWithRetry\<close> does, in order: the attempts it makes (numbered from 1) and
  the delays it sleeps, in milliseconds.
\<close>

datatype retry_event = Attempt nat | Sleep nat

text \<open>
  The loop of \<open>requestWithRetry\<close>, with its variables \<open>attempt\<close> and
  \<open>lastResponse\<close>; \<open>send attempt\<close> is the response that \<open>this.request(endpoint)\<close>
  gives at that attempt.
\<close>

function requestWithRetry_loop ::
  "(nat \<Rightarrow> json SwushApiResponse) \<Rightarrow> nat \<Rightarrow> nat \<Rightarrow> json SwushApiResponse option
     \<Rightarrow> retry_event list \<Rightarrow> json SwushApiResponse option \<times> retry_event list" where
  "requestWithRetry_loop send maxRetries attempt lastResponse trace =
     (if attempt \<le> maxRetries + 1 then
        let response = send attempt;
            trace1 = trace @ [Attempt attempt]
        in if is_success response then (Some response, trace1)
           else if isClientError response \<and> \<not> isRetryableClientError response then
             (Some response, trace1)
           else if attempt \<le> maxRetries then
             requestWithRetry_loop send maxRetries (attempt + 1) (Some response)
               (trace1 @ [Sleep (RETRY_BASE_DELAY_MS * 2 ^ (attempt - 1))])
           else
             requestWithRetry_loop send maxRetries (attempt + 1) (Some response) trace1
      else (lastResponse, trace))"
  by pat_completeness auto

termination
  by (relation "measure (\<lambda>(send, maxRetries, attempt, lastResponse, trace).
                  maxRetries + 2 - attempt)") auto

declare requestWithRetry_loop.simps [simp del]

definition requestWithRetry ::
  "(nat \<Rightarrow> json SwushApiResponse) \<Rightarrow> nat
     \<Rightarrow> json SwushApiResponse option \<times> retry_event list" where
  "requestWithRetry send maxRetries = requestWithRetry_loop send maxRetries 1 None []"

text \<open>
  \<open>getUsers\<close>: the page request goes through \<open>requestWithRetry\<close> with the default
  budget; \<open>fetch_page page attempt\<close> is the outcome of the HTTP call made for that page
  at that attempt. The endpoint text, with the page size clamped to \<open>MAX_PAGE_SIZE\<close>,
  only names the call and is left out.
\<close>

definition getUsers ::
  "(int \<Rightarrow> nat \<Rightarrow> swush_fetch) \<Rightarrow> int
     \<Rightarrow> json SwushApiResponse option \<times> retry_event list" where
  "getUsers fetch_page page =
     requestWithRetry (\<lambda>attempt. request DEFAULT_TIMEOUT_MS (fetch_page page attempt)) MAX_RETRIES"

text \<open>A failed response that the loop retries: neither a success nor a 4xx other than 408 and 429.\<close>

definition is_transient :: "json SwushApiResponse \<Rightarrow> bool" where
  "is_transient response =
     (\<not> is_success response \<and> \<not> (isClientError response \<and> \<not> isRetryableClientError response))"

definition backoff_trace :: "nat \<Rightarrow> retry_event list" where
  "backoff_trace k =
     concat (map (\<lambda>a. [Attempt a, Sleep (RETRY_BASE_DELAY_MS * 2 ^ (a - 1))]) [1..<k])"

text \<open>
  The fetch outcomes by kind: a 2xx response with a truthy JSON body, a 2xx response
  with a falsy JSON body, a transient failure (timeout, transport error, 5xx, 408, 429),
  a permanent failure (a 4xx other than 408 and 429).
\<close>

definition success_fetch :: "swush_fetch \<Rightarrow> bool" where
  "success_fetch outcome =
     (case outcome of
        FetchResponse status statusText (Json data) \<Rightarrow> response_ok status \<and> js_truthy data
      | _ \<Rightarrow> False)"

definition falsy_body_fetch :: "swush_fetch \<Rightarrow> bool" where
  "falsy_body_fetch outcome =
     (case outcome of
        FetchResponse status statusText (Json data) \<Rightarrow> response_ok status \<and> \<not> js_truthy data
      | _ \<Rightarrow> False)"

definition transient_fetch :: "swush_fetch \<Rightarrow> bool" where
  "transient_fetch outcome =
     (case outcome of
        FetchAborted \<Rightarrow> True
      | FetchThrew msg \<Rightarrow> True
      | FetchThrewOther \<Rightarrow> True
      | FetchResponse status statusText body \<Rightarrow>
          (500 \<le> status \<and> status \<le> 599) \<or> status = 408 \<or> status = 429)"

definition permanent_fetch :: "swush_fetch \<Rightarrow> bool" where
  "permanent_fetch outcome =
     (case outcome of
        FetchResponse status statusText body \<Rightarrow>
          400 \<le> status \<and> status \<le> 499 \<and> status \<noteq> 408 \<and> status \<noteq> 429
      | _ \<Rightarrow> False)"

text \<open>
  A page that answers 503 three times and then succeeds with an object, one that always
  answers 503, one that answers 404, and one that always answers 200 with the body
  \<open>0\<close>.
\<close>

definition ex_users_body :: json where
  "ex_users_body = JObject [(''page'', JNumber 2), (''pages'', JNumber 11), (''users'', JArray [])]"

definition ex_fetch_recovering :: "int \<Rightarrow> nat \<Rightarrow> swush_fetch" where
  "ex_fetch_recovering page attempt =
     (if attempt < 4 then FetchResponse 503 ''Service Unavailable'' InvalidJson
      else FetchResponse 200 ''OK'' (Json ex_users_body))"

definition ex_fetch_down :: "int \<Rightarrow> nat \<Rightarrow> swush_fetch" where
  "ex_fetch_down page attempt = FetchResponse 503 ''Service Unavailable'' InvalidJson"

definition ex_fetch_missing :: "int \<Rightarrow> nat \<Rightarrow> swush_fetch" where
  "ex_fetch_missing page attempt = FetchResponse 404 ''Not Found'' InvalidJson"

definition ex_fetch_zero :: "int \<Rightarrow> nat \<Rightarrow> swush_fetch" where
  "ex_fetch_zero page attempt = FetchResponse 200 ''OK'' (Json (JNumber 0))"

fun attempts :: "retry_event list \<Rightarrow> nat list" where
  "attempts [] = []"
| "attempts (Attempt a # es) = a # attempts es"
| "attempts (Sleep d # es) = attempts es"

section \<open>SyncService: the scheduler (sync-service.ts, second part of layout.tsx)\<close>

text \<open>
  The scheduler computes with \<open>getTime()\<close> differences divided by constants. The
  quotients are modelled as real numbers; the comparisons against 0, 1, 2, 30 and the
  sync interval decide the same for the doubles of the source, whose operands are whole
  millisecond counts.
\<close>

record CriticalPeriod =
  critical :: bool
  critical_reason :: string

text \<open>\<open>Math.round\<close>: the nearest integer, halves rounded up.\<close>

definition math_round :: "real \<Rightarrow> int" where
  "math_round x = \<lfloor>x + 1 / 2\<rfloor>"

text \<open>
  \<open>isInCriticalPeriod\<close>: each of the three blocks either returns (\<open>Some\<close>) or falls
  through to the next (\<open>None\<close>).
\<close>

definition isInCriticalPeriod :: "timestamp \<Rightarrow> Game \<Rightarrow> CriticalPeriod" where
  "isInCriticalPeriod now game =
     (let round_start_block =
            (case current_round_start game of
               None \<Rightarrow> None
             | Some roundStart \<Rightarrow>
                 let hoursUntilStart = real_of_int (roundStart - now) / (1000 * 60 * 60)
                 in if hoursUntilStart > 0 \<and> hoursUntilStart \<le> 2 then
                      Some \<lparr> critical = True,
                             critical_reason = ''Round starting in ''
                               @ string_of_int (math_round (hoursUntilStart * 60))
                               @ '' minutes'' \<rparr>
                    else None);
          deadline_block =
            (case next_trade_deadline game of
               None \<Rightarrow> None
             | Some deadline \<Rightarrow>
                 let hoursUntilDeadline = real_of_int (deadline - now) / (1000 * 60 * 60)
                 in if hoursUntilDeadline > 0 \<and> hoursUntilDeadline \<le> 2 then
                      Some \<lparr> critical = True,
                             critical_reason = ''Trade deadline in ''
                               @ string_of_int (math_round (hoursUntilDeadline * 60))
                               @ '' minutes'' \<rparr>
                    else None);
          round_end_block =
            (case current_round_end game of
               None \<Rightarrow> None
             | Some roundEnd \<Rightarrow>
                 if round_state game = Some ''Ended'' \<or> round_state game = Some ''EndedLastest''
                 then
                   let hoursSinceEnd = real_of_int (now - roundEnd) / (1000 * 60 * 60)
                   in if hoursSinceEnd \<ge> 0 \<and> hoursSinceEnd \<le> 1 then
                        Some \<lparr> critical = True,
                               critical_reason = ''Round ended ''
                                 @ string_of_int (math_round (hoursSinceEnd * 60))
                                 @ '' minutes ago'' \<rparr>
                      else None
                 else None)
      in case round_start_block of
           Some r \<Rightarrow> r
         | None \<Rightarrow>
             (case deadline_block of
                Some r \<Rightarrow> r
              | None \<Rightarrow>
                  (case round_end_block of
                     Some r \<Rightarrow> r
                   | None \<Rightarrow> \<lparr> critical = False, critical_reason = '''' \<rparr>)))"

text \<open>
  The loop of \<open>getGamesDueForSync\<close> over the selected rows, appending to \<open>gamesDue\<close>.
\<close>

fun gamesDue_loop :: "timestamp \<Rightarrow> Game list \<Rightarrow> Game list \<Rightarrow> Game list" where
  "gamesDue_loop now [] gamesDue = gamesDue"
| "gamesDue_loop now (game # games) gamesDue =
     (case last_synced_at game of
        None \<Rightarrow> gamesDue_loop now games (gamesDue @ [game])
      | Some lastSync \<Rightarrow>
          let minutesSinceSync = real_of_int (now - lastSync) / (1000 * 60) in
          if critical (isInCriticalPeriod now game) then
            (if minutesSinceSync \<ge> 30 then gamesDue_loop now games (gamesDue @ [game])
             else gamesDue_loop now games gamesDue)
          else if minutesSinceSync \<ge> real_of_int (sync_interval_minutes game) then
            gamesDue_loop now games (gamesDue @ [game])
          else gamesDue_loop now games gamesDue)"

text \<open>
  \<open>getGamesDueForSync\<close>: the select of the active rows of \<open>games\<close> either fails
  (\<open>Inl\<close>, and nothing is due) or gives the table's rows.
\<close>

definition getGamesDueForSync :: "timestamp \<Rightarrow> (string + Game list) \<Rightarrow> Game list" where
  "getGamesDueForSync now games_table =
     (case games_table of
        Inl err \<Rightarrow> []
      | Inr rows \<Rightarrow> gamesDue_loop now (filter game_is_active rows) [])"

subsection \<open>The selection rule in words\<close>

text \<open>
  The critical period as the three windows alone, and with the round state that the
  round-end window also asks for.
\<close>

definition round_start_window :: "timestamp \<Rightarrow> Game \<Rightarrow> bool" where
  "round_start_window now game =
     (case current_round_start game of
        None \<Rightarrow> False
      | Some roundStart \<Rightarrow> 0 < roundStart - now \<and> roundStart - now \<le> 2 * 3600000)"

definition deadline_window :: "timestamp \<Rightarrow> Game \<Rightarrow> bool" where
  "deadline_window now game =
     (case next_trade_deadline game of
        None \<Rightarrow> False
      | Some deadline \<Rightarrow> 0 < deadline - now \<and> deadline - now \<le> 2 * 3600000)"

definition round_end_window :: "timestamp \<Rightarrow> Game \<Rightarrow> bool" where
  "round_end_window now game =
     (case current_round_end game of
        None \<Rightarrow> False
      | Some roundEnd \<Rightarrow> 0 \<le> now - roundEnd \<and> now - roundEnd \<le> 3600000)"

definition critical_period_by_windows :: "timestamp \<Rightarrow> Game \<Rightarrow> bool" where
  "critical_period_by_windows now game =
     (round_start_window now game \<or> deadline_window now game \<or> round_end_window now game)"

definition round_has_ended :: "Game \<Rightarrow> bool" where
  "round_has_ended game =
     (round_state game = Some ''Ended'' \<or> round_state game = Some ''EndedLastest'')"

definition critical_period_with_state :: "timestamp \<Rightarrow> Game \<Rightarrow> bool" where
  "critical_period_with_state now game =
     (round_start_window now game \<or> deadline_window now game
      \<or> (round_has_ended game \<and> round_end_window now game))"

definition due_rule :: "(timestamp \<Rightarrow> Game \<Rightarrow> bool) \<Rightarrow> timestamp \<Rightarrow> Game \<Rightarrow> bool" where
  "due_rule in_critical_period now game =
     (case last_synced_at game of
        None \<Rightarrow> True
      | Some lastSync \<Rightarrow>
          if in_critical_period now game then 30 * 60000 \<le> now - lastSync
          else sync_interval_minutes game * 60000 \<le> now - lastSync)"

text \<open>
  A game synced 40 minutes before time 0 with an interval of 60 minutes whose round
  ended 30 minutes ago while its state still reads \<open>CurrentOpen\<close>; the same game with a
  round starting in 90 minutes; and the same game outside every window.
\<close>

definition ex_game_routine :: Game where
  "ex_game_routine =
     ex_game\<lparr> last_synced_at := Some (- 40 * 60000), sync_interval_minutes := 60 \<rparr>"

definition ex_game_round_over_still_open :: Game where
  "ex_game_round_over_still_open =
     ex_game_routine\<lparr> current_round_end := Some (- 30 * 60000) \<rparr>"

definition ex_game_round_soon :: Game where
  "ex_game_round_soon = ex_game_routine\<lparr> current_round_start := Some (90 * 60000) \<rparr>"

section \<open>SyncService: one reconciliation of one game (sync-service.ts)\<close>

definition BATCH_SIZE :: nat where
  "BATCH_SIZE = 100"

subsection \<open>Upstream types\<close>

record SwushRound =
  r_index :: int
  r_start :: "timestamp option"
  r_tradeCloses :: "timestamp option"
  r_end :: "timestamp option"
  r_state :: string

record SwushElement =
  elementId :: int
  imageUrl :: "string option"
  shortName :: string
  fullName :: string
  teamName :: "string option"
  popularity :: real
  trend :: int
  growth :: int
  totalGrowth :: int
  el_value :: int

record SwushUserteam =
  ut_name :: "string option"
  ut_score :: "int option"
  ut_rank :: "int option"
  ut_roundScore :: "int option"
  ut_roundRank :: "int option"
  ut_roundJump :: "int option"
  ut_lineupElementIds :: "int list option"

record SwushUser =
  u_id :: int
  u_name :: "string option"
  u_externalId :: "string option"
  u_injured :: "int option"
  u_suspended :: "int option"
  u_userteams :: "SwushUserteam list option"

record SwushGameResponse =
  gameId :: int
  userteamsCount :: int
  currentRoundIndex :: "int option"
  rounds :: "SwushRound list"

record SwushUsersResponse =
  usersTotal :: int
  pages :: int
  users :: "SwushUser list"

subsection \<open>Rows written to the store\<close>

datatype sync_type = manual | scheduled

datatype sync_status = sync_started | sync_completed | sync_failed

record SyncLogInsertRow =
  sl_game_id :: string
  sl_sync_type :: sync_type
  sl_status :: sync_status
  sl_users_synced :: nat
  sl_elements_synced :: nat
  sl_error_message :: "string option"
  sl_started_at :: timestamp

record SyncLogChanges =
  slu_status :: sync_status
  slu_users_synced :: "nat option"
  slu_elements_synced :: "nat option"
  slu_error_message :: "string option"
  slu_completed_at :: timestamp

record GameChanges =
  gu_swush_game_id :: int
  gu_current_round :: "int option"
  gu_total_rounds :: nat
  gu_round_state :: "string option"
  gu_next_trade_deadline :: "timestamp option"
  gu_current_round_start :: "timestamp option"
  gu_current_round_end :: "timestamp option"
  gu_users_total :: int
  gu_game_url :: string
  gu_last_synced_at :: timestamp

text \<open>The object built for each element in \<open>upsertData\<close>.\<close>

record ElementUpsert =
  e_game_id :: string
  e_element_id :: int
  e_short_name :: string
  e_full_name :: string
  e_team_name :: string
  e_image_url :: "string option"
  e_popularity :: real
  e_trend :: int
  e_growth :: int
  e_total_growth :: int
  e_value :: int
  e_updated_at :: timestamp

text \<open>
  A row of the \<open>elements\<close> table (schema.sql), without its surrogate \<open>id\<close>: the columns
  of the upsert and the two flags, which default to false.
\<close>

record ElementRow = ElementUpsert +
  is_injured :: bool
  is_suspended :: bool

record UserStatsUpsert =
  s_external_id :: string
  s_game_id :: string
  s_swush_user_id :: int
  s_team_name :: string
  s_score :: int
  s_rank :: "int option"
  s_round_score :: int
  s_round_rank :: "int option"
  s_round_jump :: int
  s_injured_count :: int
  s_suspended_count :: int
  s_lineup_element_ids :: "int list"
  s_synced_at :: timestamp

record SyncFailureAlert =
  a_gameKey :: string
  a_gameName :: string
  a_error :: string
  a_timestamp :: timestamp
  a_lastSuccessfulSync :: "timestamp option"

text \<open>
  What a run does to the outside world, in order. An upsert carries the answer of the
  store: accepted, or rejected with an error.
\<close>

datatype sync_event =
    SyncLogInsert SyncLogInsertRow
  | GetGame
  | GameUpdate GameChanges
  | GetElements
  | ElementsUpsert "ElementUpsert list" bool
  | GetUsers int
  | UsersUpsert int "UserStatsUpsert list" bool
  | RateLimitDelay nat
  | SyncLogUpdate string SyncLogChanges
  | AlertSyncFailure SyncFailureAlert

record SyncResult =
  sr_success :: bool
  sr_gamesSynced :: "nat option"
  sr_elementsSynced :: "nat option"
  sr_usersSynced :: "nat option"
  sr_error :: "string option"

text \<open>
  The surroundings of one run: the responses of the partner API client (that of
  \<open>getUsers\<close> per page, after its retries), the answers of the store to each write, the
  id the store gives the new \<open>sync_logs\<close> row (\<open>None\<close> when the insert fails), the
  environment variable \<open>GAME_BASE_URL\<close>, and the text that
  \<open>Math.round(failureRate * 100)\<close> prints for a number of failed pages and a page count.
\<close>

record SyncEnv =
  swush_getGame :: "SwushGameResponse SwushApiResponse"
  swush_getElements :: "SwushElement list SwushApiResponse"
  swush_getUsers :: "int \<Rightarrow> SwushUsersResponse SwushApiResponse"
  games_update_error :: "string option"
  elements_upsert_rejected :: "nat \<Rightarrow> bool"
  users_upsert_rejected :: "int \<Rightarrow> bool"
  sync_log_id :: "string option"
  GAME_BASE_URL_var :: "string option"
  percent_text :: "nat \<Rightarrow> int \<Rightarrow> string"

definition fail_with :: "string \<Rightarrow> SyncResult" where
  "fail_with msg =
     \<lparr> sr_success = False, sr_gamesSynced = None, sr_elementsSynced = None,
       sr_usersSynced = None, sr_error = Some msg \<rparr>"

text \<open>\<open>response.error || !response.data\<close>\<close>

definition fetch_failed :: "'a SwushApiResponse \<Rightarrow> bool" where
  "fetch_failed response = (truthy (res_error response) \<or> res_data response = None)"

subsection \<open>Metadata phase\<close>

definition GAME_BASE_URL :: "SyncEnv \<Rightarrow> string" where
  "GAME_BASE_URL env =
     (if truthy (GAME_BASE_URL_var env) then env_or_empty (GAME_BASE_URL_var env)
      else ''https://manager.aftonbladet.se/se'')"

definition findCurrentRound :: "SwushRound list \<Rightarrow> SwushRound option" where
  "findCurrentRound rs = find (\<lambda>r. r_state r = ''CurrentOpen'') rs"

text \<open>\<open>a?.f || b?.f || null\<close> on nullable values.\<close>

definition field_or :: "('r \<Rightarrow> 'v option) \<Rightarrow> 'r option \<Rightarrow> 'r option \<Rightarrow> 'v option" where
  "field_or f a b =
     (case Option.bind a f of
        Some v \<Rightarrow> Some v
      | None \<Rightarrow> Option.bind b f)"

definition state_of :: "SwushRound \<Rightarrow> string option" where
  "state_of r = (if r_state r = '''' then None else Some (r_state r))"

definition syncGameDetails :: "SyncEnv \<Rightarrow> timestamp \<Rightarrow> Game \<Rightarrow> SyncResult \<times> sync_event list" where
  "syncGameDetails env now game =
     (let response = swush_getGame env in
      case res_data response of
        None \<Rightarrow> (fail_with (message_or (res_error response) ''Failed to fetch game''), [GetGame])
      | Some swushGame \<Rightarrow>
          if truthy (res_error response) then
            (fail_with (message_or (res_error response) ''Failed to fetch game''), [GetGame])
          else
            let currentRound = findCurrentRound (rounds swushGame);
                nextPendingRound = find (\<lambda>r. r_state r = ''Pending'') (rounds swushGame);
                endedRound = find (\<lambda>r. r_state r = ''Ended'' \<or> r_state r = ''EndedLastest'')
                               (rounds swushGame);
                changes =
                  \<lparr> gu_swush_game_id = gameId swushGame,
                    gu_current_round = currentRoundIndex swushGame,
                    gu_total_rounds = length (rounds swushGame),
                    gu_round_state = field_or state_of currentRound endedRound,
                    gu_next_trade_deadline = field_or r_tradeCloses currentRound nextPendingRound,
                    gu_current_round_start = field_or r_start currentRound nextPendingRound,
                    gu_current_round_end = field_or r_end currentRound endedRound,
                    gu_users_total = userteamsCount swushGame,
                    gu_game_url = GAME_BASE_URL env @ ''/'' @ game_key game,
                    gu_last_synced_at = now \<rparr>
            in case games_update_error env of
                 Some msg \<Rightarrow> (fail_with msg, [GetGame, GameUpdate changes])
               | None \<Rightarrow>
                   (\<lparr> sr_success = True, sr_gamesSynced = Some 1, sr_elementsSynced = None,
                      sr_usersSynced = None, sr_error = None \<rparr>,
                    [GetGame, GameUpdate changes]))"

subsection \<open>Catalog phase\<close>

definition element_upsert :: "timestamp \<Rightarrow> Game \<Rightarrow> SwushElement \<Rightarrow> ElementUpsert" where
  "element_upsert now game el =
     \<lparr> e_game_id = game_id game,
       e_element_id = elementId el,
       e_short_name = shortName el,
       e_full_name = fullName el,
       e_team_name = env_or_empty (teamName el),
       e_image_url = imageUrl el,
       e_popularity = popularity el,
       e_trend = trend el,
       e_growth = growth el,
       e_total_growth = totalGrowth el,
       e_value = el_value el,
       e_updated_at = now \<rparr>"

text \<open>
  The batch loop of \<open>syncElements\<close>, with its variables \<open>i\<close> and \<open>syncedCount\<close>; a
  rejected batch is skipped.
\<close>

function elements_loop ::
  "SyncEnv \<Rightarrow> timestamp \<Rightarrow> Game \<Rightarrow> SwushElement list \<Rightarrow> nat \<Rightarrow> nat \<Rightarrow> sync_event list
     \<Rightarrow> nat \<times> sync_event list" where
  "elements_loop env now game elements i syncedCount events =
     (if i < length elements then
        let batch = take BATCH_SIZE (drop i elements);
            upsertData = map (element_upsert now game) batch
        in if elements_upsert_rejected env i then
             elements_loop env now game elements (i + BATCH_SIZE) syncedCount
               (events @ [ElementsUpsert upsertData False])
           else
             elements_loop env now game elements (i + BATCH_SIZE) (syncedCount + length batch)
               (events @ [ElementsUpsert upsertData True])
      else (syncedCount, events))"
  by pat_completeness auto

termination
  by (relation "measure (\<lambda>(env, now, game, elements, i, syncedCount, events).
                  length elements - i)")
     (auto simp: BATCH_SIZE_def)

declare elements_loop.simps [simp del]

definition syncElements :: "SyncEnv \<Rightarrow> timestamp \<Rightarrow> Game \<Rightarrow> SyncResult \<times> sync_event list" where
  "syncElements env now game =
     (let response = swush_getElements env in
      case res_data response of
        None \<Rightarrow>
          (fail_with (message_or (res_error response) ''Failed to fetch elements''), [GetElements])
      | Some elements \<Rightarrow>
          if truthy (res_error response) then
            (fail_with (message_or (res_error response) ''Failed to fetch elements''),
             [GetElements])
          else
            let (syncedCount, events) = elements_loop env now game elements 0 0 [GetElements]
            in (\<lparr> sr_success = True, sr_gamesSynced = None,
                  sr_elementsSynced = Some syncedCount, sr_usersSynced = None,
                  sr_error = None \<rparr>, events))"

text \<open>
  The \<open>elements\<close> table, keyed by its unique pair \<open>(game_id, element_id)\<close>, and the
  effect of an accepted \<open>upsert(..., { onConflict: 'game_id,element_id' })\<close> on it:
  on a new key the row is inserted, the columns absent from the payload taking the
  defaults of schema.sql; on an existing key the columns of the payload are overwritten
  and the others keep their stored values.
\<close>

type_synonym elements_table = "(string \<times> int) \<rightharpoonup> ElementRow"

definition upsert_element :: "ElementUpsert \<Rightarrow> elements_table \<Rightarrow> elements_table" where
  "upsert_element p tbl =
     tbl ((e_game_id p, e_element_id p) \<mapsto>
       ElementUpsert.extend p
         (case tbl (e_game_id p, e_element_id p) of
            None \<Rightarrow> ElementRow.fields False False
          | Some old \<Rightarrow> ElementRow.fields (is_injured old) (is_suspended old)))"

fun accepted_element_rows :: "sync_event list \<Rightarrow> ElementUpsert list" where
  "accepted_element_rows [] = []"
| "accepted_element_rows (ElementsUpsert rows True # es) = rows @ accepted_element_rows es"
| "accepted_element_rows (_ # es) = accepted_element_rows es"

definition elements_after :: "sync_event list \<Rightarrow> elements_table \<Rightarrow> elements_table" where
  "elements_after events tbl = fold upsert_element (accepted_element_rows events) tbl"

subsection \<open>User phase\<close>

text \<open>\<open>a ?? b\<close>\<close>

definition nullish :: "'a option \<Rightarrow> 'a \<Rightarrow> 'a" where
  "nullish a b = (case a of None \<Rightarrow> b | Some v \<Rightarrow> v)"

text \<open>\<open>user.userteams?.[0]\<close>\<close>

definition primary_team :: "SwushUser \<Rightarrow> SwushUserteam option" where
  "primary_team user =
     (case u_userteams user of
        None \<Rightarrow> None
      | Some [] \<Rightarrow> None
      | Some (t # ts) \<Rightarrow> Some t)"

definition user_upsert :: "timestamp \<Rightarrow> Game \<Rightarrow> SwushUser \<Rightarrow> UserStatsUpsert" where
  "user_upsert now game user =
     (let userteam = primary_team user in
      \<lparr> s_external_id = env_or_empty (u_externalId user),
        s_game_id = game_id game,
        s_swush_user_id = u_id user,
        s_team_name =
          nullish (Option.bind userteam ut_name) (nullish (u_name user) ''Unknown''),
        s_score = nullish (Option.bind userteam ut_score) 0,
        s_rank = Option.bind userteam ut_rank,
        s_round_score = nullish (Option.bind userteam ut_roundScore) 0,
        s_round_rank = Option.bind userteam ut_roundRank,
        s_round_jump = nullish (Option.bind userteam ut_roundJump) 0,
        s_injured_count = nullish (u_injured user) 0,
        s_suspended_count = nullish (u_suspended user) 0,
        s_lineup_element_ids = nullish (Option.bind userteam ut_lineupElementIds) [],
        s_synced_at = now \<rparr>)"

text \<open>
  \<open>saveUsersPage\<close> gives its \<open>{ success, count }\<close> and the upsert it issued, if any.
\<close>

definition saveUsersPage ::
  "SyncEnv \<Rightarrow> timestamp \<Rightarrow> Game \<Rightarrow> SwushUser list \<Rightarrow> int
     \<Rightarrow> (bool \<times> nat) \<times> sync_event list" where
  "saveUsersPage env now game page_users pageNumber =
     (let usersWithExternalId = filter (\<lambda>user. truthy (u_externalId user)) page_users in
      if length usersWithExternalId = 0 then ((True, 0), [])
      else
        let upsertData = map (user_upsert now game) usersWithExternalId in
        if users_upsert_rejected env pageNumber then
          ((False, 0), [UsersUpsert pageNumber upsertData False])
        else ((True, length upsertData), [UsersUpsert pageNumber upsertData True]))"

record UsersProgress =
  syncedCount :: nat
  errorCount :: nat
  failedPages :: "int list"
  user_events :: "sync_event list"

text \<open>The body of the page loop of \<open>syncUsers\<close> for one page.\<close>

definition users_page_step ::
  "SyncEnv \<Rightarrow> timestamp \<Rightarrow> Game \<Rightarrow> int \<Rightarrow> UsersProgress \<Rightarrow> UsersProgress" where
  "users_page_step env now game page st =
     (let response = swush_getUsers env page in
      case res_data response of
        None \<Rightarrow>
          st\<lparr> errorCount := errorCount st + 1,
              failedPages := failedPages st @ [page],
              user_events := user_events st @ [GetUsers page] \<rparr>
      | Some data \<Rightarrow>
          if truthy (res_error response) then
            st\<lparr> errorCount := errorCount st + 1,
                failedPages := failedPages st @ [page],
                user_events := user_events st @ [GetUsers page] \<rparr>
          else
            let ((success, count), saved) = saveUsersPage env now game (users data) page in
            if success then
              st\<lparr> syncedCount := syncedCount st + count,
                  user_events := user_events st @ [GetUsers page] @ saved @ [RateLimitDelay 100] \<rparr>
            else
              st\<lparr> errorCount := errorCount st + 1,
                  failedPages := failedPages st @ [page],
                  user_events := user_events st @ [GetUsers page] @ saved @ [RateLimitDelay 100] \<rparr>)"

function users_loop ::
  "SyncEnv \<Rightarrow> timestamp \<Rightarrow> Game \<Rightarrow> int \<Rightarrow> int \<Rightarrow> UsersProgress \<Rightarrow> UsersProgress" where
  "users_loop env now game totalPages page st =
     (if page \<le> totalPages then
        users_loop env now game totalPages (page + 1) (users_page_step env now game page st)
      else st)"
  by pat_completeness auto

termination
  by (relation "measure (\<lambda>(env, now, game, totalPages, page, st). nat (totalPages + 1 - page))")
     auto

declare users_loop.simps [simp del]

text \<open>
  \<open>failedPages.length / totalPages > 0.1\<close>. The division of the source gives Infinity
  for a positive count over zero pages and NaN for zero over zero; NaN compares false.
\<close>

definition failure_rate_too_high :: "nat \<Rightarrow> int \<Rightarrow> bool" where
  "failure_rate_too_high failedCount totalPages =
     (if totalPages = 0 then failedCount > 0
      else real failedCount / real_of_int totalPages > 1 / 10)"

definition syncUsers :: "SyncEnv \<Rightarrow> timestamp \<Rightarrow> Game \<Rightarrow> SyncResult \<times> sync_event list" where
  "syncUsers env now game =
     (let firstResponse = swush_getUsers env 1 in
      case res_data firstResponse of
        None \<Rightarrow>
          (fail_with (message_or (res_error firstResponse) ''Failed to fetch users''),
           [GetUsers 1])
      | Some data \<Rightarrow>
          if truthy (res_error firstResponse) then
            (fail_with (message_or (res_error firstResponse) ''Failed to fetch users''),
             [GetUsers 1])
          else
            let totalPages = pages data;
                ((success, count), saved) = saveUsersPage env now game (users data) 1;
                st1 =
                  (if success then
                     \<lparr> syncedCount = count, errorCount = 0, failedPages = [],
                       user_events = [GetUsers 1] @ saved \<rparr>
                   else
                     \<lparr> syncedCount = 0, errorCount = 1, failedPages = [1],
                       user_events = [GetUsers 1] @ saved \<rparr>);
                st = users_loop env now game totalPages 2 st1
            in if failure_rate_too_high (length (failedPages st)) totalPages then
                 (\<lparr> sr_success = False, sr_gamesSynced = None, sr_elementsSynced = None,
                    sr_usersSynced = Some (syncedCount st),
                    sr_error = Some (''Too many failed pages: ''
                       @ string_of_nat (length (failedPages st)) @ ''/''
                       @ string_of_int totalPages @ '' (''
                       @ percent_text env (length (failedPages st)) totalPages @ ''%)'') \<rparr>,
                  user_events st)
               else
                 (\<lparr> sr_success = True, sr_gamesSynced = None, sr_elementsSynced = None,
                    sr_usersSynced = Some (syncedCount st), sr_error = None \<rparr>,
                  user_events st))"

subsection \<open>The whole run\<close>

text \<open>\<open>x || 0\<close> on an optional count.\<close>

definition count_or_0 :: "nat option \<Rightarrow> nat" where
  "count_or_0 c = (case c of None \<Rightarrow> 0 | Some n \<Rightarrow> n)"

text \<open>\<open>new Error(result.error).message\<close>\<close>

definition thrown_message :: "SyncResult \<Rightarrow> string" where
  "thrown_message r = (case sr_error r of None \<Rightarrow> '''' | Some msg \<Rightarrow> msg)"

text \<open>
  The \<open>catch\<close> block of \<open>syncGame\<close>: the log row, when one was created, is marked
  failed, the alert is raised, and the failure is returned.
\<close>

definition sync_failed_with ::
  "SyncEnv \<Rightarrow> timestamp \<Rightarrow> Game \<Rightarrow> string \<Rightarrow> SyncResult \<times> sync_event list" where
  "sync_failed_with env now game errorMessage =
     (fail_with errorMessage,
      (case sync_log_id env of
         None \<Rightarrow> []
       | Some logId \<Rightarrow>
           if logId = '''' then [] else
           [SyncLogUpdate logId
              \<lparr> slu_status = sync_failed, slu_users_synced = None,
                slu_elements_synced = None, slu_error_message = Some errorMessage,
                slu_completed_at = now \<rparr>])
      @ [AlertSyncFailure
           \<lparr> a_gameKey = game_key game, a_gameName = game_name game,
             a_error = errorMessage, a_timestamp = now,
             a_lastSuccessfulSync = last_synced_at game \<rparr>])"

definition syncGame ::
  "SyncEnv \<Rightarrow> timestamp \<Rightarrow> Game \<Rightarrow> sync_type \<Rightarrow> SyncResult \<times> sync_event list" where
  "syncGame env now game syncType =
     (let created =
            [SyncLogInsert
               \<lparr> sl_game_id = game_id game, sl_sync_type = syncType,
                 sl_status = sync_started, sl_users_synced = 0, sl_elements_synced = 0,
                 sl_error_message = None, sl_started_at = now \<rparr>];
          (gameResult, gameEvents) = syncGameDetails env now game
      in if \<not> sr_success gameResult then
           (let (r, evs) = sync_failed_with env now game (thrown_message gameResult)
            in (r, created @ gameEvents @ evs))
         else
           let (elementsResult, elementEvents) = syncElements env now game in
           if \<not> sr_success elementsResult then
             (let (r, evs) = sync_failed_with env now game (thrown_message elementsResult)
              in (r, created @ gameEvents @ elementEvents @ evs))
           else
             let (usersResult, userEvents) = syncUsers env now game in
             if \<not> sr_success usersResult then
               (let (r, evs) = sync_failed_with env now game (thrown_message usersResult)
                in (r, created @ gameEvents @ elementEvents @ userEvents @ evs))
             else
               (\<lparr> sr_success = True, sr_gamesSynced = Some 1,
                  sr_elementsSynced = sr_elementsSynced elementsResult,
                  sr_usersSynced = sr_usersSynced usersResult, sr_error = None \<rparr>,
                created @ gameEvents @ elementEvents @ userEvents
                @ (case sync_log_id env of
                     None \<Rightarrow> []
                   | Some logId \<Rightarrow>
                       if logId = '''' then [] else
                       [SyncLogUpdate logId
                          \<lparr> slu_status = sync_completed,
                            slu_users_synced = Some (count_or_0 (sr_usersSynced usersResult)),
                            slu_elements_synced =
                              Some (count_or_0 (sr_elementsSynced elementsResult)),
                            slu_error_message = None, slu_completed_at = now \<rparr>])))"

text \<open>The events of each phase, by the kind of call.\<close>

fun is_meta_event :: "sync_event \<Rightarrow> bool" where
  "is_meta_event GetGame = True"
| "is_meta_event (GameUpdate c) = True"
| "is_meta_event _ = False"

fun is_catalog_event :: "sync_event \<Rightarrow> bool" where
  "is_catalog_event GetElements = True"
| "is_catalog_event (ElementsUpsert rows ok) = True"
| "is_catalog_event _ = False"

fun is_user_event :: "sync_event \<Rightarrow> bool" where
  "is_user_event (GetUsers page) = True"
| "is_user_event (UsersUpsert page rows ok) = True"
| "is_user_event (RateLimitDelay ms) = True"
| "is_user_event _ = False"

text \<open>The progress after the first page, and the state in which the page loop ends.\<close>

definition first_page_progress ::
  "SyncEnv \<Rightarrow> timestamp \<Rightarrow> Game \<Rightarrow> SwushUsersResponse \<Rightarrow> UsersProgress" where
  "first_page_progress env now game d =
     (if fst (fst (saveUsersPage env now game (users d) 1)) then
        \<lparr> syncedCount = snd (fst (saveUsersPage env now game (users d) 1)),
          errorCount = 0, failedPages = [],
          user_events = [GetUsers 1] @ snd (saveUsersPage env now game (users d) 1) \<rparr>
      else
        \<lparr> syncedCount = 0, errorCount = 1, failedPages = [1],
          user_events = [GetUsers 1] @ snd (saveUsersPage env now game (users d) 1) \<rparr>)"

definition users_final ::
  "SyncEnv \<Rightarrow> timestamp \<Rightarrow> Game \<Rightarrow> SwushUsersResponse \<Rightarrow> UsersProgress" where
  "users_final env now game d =
     users_loop env now game (pages d) 2 (first_page_progress env now game d)"

definition ex_swush_game :: SwushGameResponse where
  "ex_swush_game =
     \<lparr> gameId = 42, userteamsCount = 1, currentRoundIndex = Some 5,
       rounds = [\<lparr> r_index = 5, r_start = Some 0, r_tradeCloses = Some 500,
                   r_end = Some 9000, r_state = ''CurrentOpen'' \<rparr>] \<rparr>"

definition ex_element :: SwushElement where
  "ex_element =
     \<lparr> elementId = 7, imageUrl = None, shortName = ''Berg'', fullName = ''Marcus Berg'',
       teamName = Some ''IFK'', popularity = 12, trend = 3, growth = 2, totalGrowth = 9,
       el_value = 100 \<rparr>"

definition ex_user :: SwushUser where
  "ex_user =
     \<lparr> u_id = 1, u_name = Some ''Anna'', u_externalId = Some ''u1'', u_injured = None,
       u_suspended = None, u_userteams = None \<rparr>"

definition ok_response :: "'a \<Rightarrow> 'a SwushApiResponse" where
  "ok_response d = \<lparr> res_data = Some d, res_error = None, res_status = 200 \<rparr>"

definition error_response :: "int \<Rightarrow> string \<Rightarrow> 'a SwushApiResponse" where
  "error_response status msg = \<lparr> res_data = None, res_error = Some msg, res_status = status \<rparr>"

definition ex_sync_env :: SyncEnv where
  "ex_sync_env =
     \<lparr> swush_getGame = ok_response ex_swush_game,
       swush_getElements = ok_response [ex_element],
       swush_getUsers = (\<lambda>page. ok_response \<lparr> usersTotal = 1, pages = 1, users = [ex_user] \<rparr>),
       games_update_error = None,
       elements_upsert_rejected = (\<lambda>i. False),
       users_upsert_rejected = (\<lambda>page. False),
       sync_log_id = Some ''log1'',
       GAME_BASE_URL_var = None,
       percent_text = (\<lambda>n t. string_of_int (math_round (real n / real_of_int t * 100))) \<rparr>"

definition ex_sync_env_catalog_down :: SyncEnv where
  "ex_sync_env_catalog_down =
     ex_sync_env\<lparr> swush_getElements := error_response 404 ''HTTP 404: Not Found'' \<rparr>"

text \<open>
  A page has failed when it could not be fetched, or when it holds users with an
  external id and the store rejected their upsert.
\<close>

definition page_failed :: "SyncEnv \<Rightarrow> int \<Rightarrow> bool" where
  "page_failed env page =
     (case res_data (swush_getUsers env page) of
        None \<Rightarrow> True
      | Some d \<Rightarrow>
          truthy (res_error (swush_getUsers env page))
          \<or> (list_ex (\<lambda>user. truthy (u_externalId user)) (users d)
              \<and> users_upsert_rejected env page))"

text \<open>The rows of \<open>user_game_stats\<close> that the store accepted.\<close>

fun persisted_user_rows :: "sync_event list \<Rightarrow> UserStatsUpsert list" where
  "persisted_user_rows [] = []"
| "persisted_user_rows (UsersUpsert page rows True # es) = rows @ persisted_user_rows es"
| "persisted_user_rows (_ # es) = persisted_user_rows es"

text \<open>Eleven pages of one user each; page 3 cannot be fetched; pages 3 and 7 cannot.\<close>

definition ex_env_11_pages :: "int list \<Rightarrow> SyncEnv" where
  "ex_env_11_pages down =
     ex_sync_env\<lparr> swush_getUsers :=
       (\<lambda>page. if page \<in> set down then error_response 503 ''HTTP 503: Service Unavailable''
                else ok_response \<lparr> usersTotal = 11, pages = 11, users = [ex_user] \<rparr>) \<rparr>"

text \<open>The rows of the batches that the store accepts, from offset \<open>i\<close> on.\<close>

function accepted_batches ::
  "SyncEnv \<Rightarrow> timestamp \<Rightarrow> Game \<Rightarrow> SwushElement list \<Rightarrow> nat \<Rightarrow> ElementUpsert list" where
  "accepted_batches env now game elements i =
     (if i < length elements then
        (if elements_upsert_rejected env i then []
         else map (element_upsert now game) (take BATCH_SIZE (drop i elements)))
        @ accepted_batches env now game elements (i + BATCH_SIZE)
      else [])"
  by pat_completeness auto

termination
  by (relation "measure (\<lambda>(env, now, game, elements, i). length elements - i)")
     (auto simp: BATCH_SIZE_def)

declare accepted_batches.simps [simp del]

text \<open>A stored row of element 7 of game g1 flagged as injured and suspended.\<close>

definition ex_elements_table :: elements_table where
  "ex_elements_table =
     Map.empty ((''g1'', 7) \<mapsto>
       ElementUpsert.extend (element_upsert 0 ex_game ex_element) (ElementRow.fields True True))"

text \<open>The flags a row has after an upsert: those stored before, or the defaults.\<close>

definition kept_flags :: "ElementRow option \<Rightarrow> bool \<times> bool" where
  "kept_flags old =
     (case old of None \<Rightarrow> (False, False) | Some r \<Rightarrow> (is_injured r, is_suspended r))"

text \<open>
  The time from \<open>now\<close> until a deadline, in hours, as a real number: the quantity the
  window of the deadline reminder is stated in, before \<open>differenceInHours\<close> truncates
  it.
\<close>

definition hours_until_deadline :: "timestamp \<Rightarrow> timestamp \<Rightarrow> real" where
  "hours_until_deadline deadline now = real_of_int (deadline - now) / 3600000"

text \<open>
  A game in round 5 whose trade deadline is 20 and a half hours after time 1000, and a
  game whose \<open>current_round\<close> is null.
\<close>

definition ex_game_deadline_soon :: Game where
  "ex_game_deadline_soon = ex_game\<lparr> next_trade_deadline := Some (1000 + 73800000) \<rparr>"

definition ex_game_no_round :: Game where
  "ex_game_no_round = ex_game\<lparr> current_round := None \<rparr>"

section \<open>Verified properties\<close>

subsection \<open>Trigger fire conditions\<close>

text \<open>
  The hour count of \<open>differenceInHours\<close> is a whole number of elapsed hours, so the
  window 20 to 28 covers the deadlines from 20 hours up to, but not including, 29 hours
  ahead.
\<close>

lemma differenceInHours_window:
  "(20 \<le> differenceInHours deadline now \<and> differenceInHours deadline now \<le> 28) \<longleftrightarrow>
   (72000000 \<le> deadline - now \<and> deadline - now < 104400000)"
  unfolding differenceInHours_def Let_def by (auto; linarith)

lemma checkDeadline_iff:
  "shouldTrigger (checkDeadlineReminder24h now game trigger) \<longleftrightarrow>
     (\<exists>deadline. next_trade_deadline game = Some deadline \<and>
        20 \<le> differenceInHours deadline now \<and> differenceInHours deadline now \<le> 28) \<and>
     last_triggered_round trigger \<noteq> current_round game"
  by (auto simp: checkDeadlineReminder24h_def Let_def DEADLINE_REMINDER_MIN_HOURS_def
        DEADLINE_REMINDER_MAX_HOURS_def split: option.splits)

lemma hours_until_deadline_window:
  "(20 \<le> hours_until_deadline deadline now \<and> hours_until_deadline deadline now < 29) \<longleftrightarrow>
   (72000000 \<le> deadline - now \<and> deadline - now < 104400000)"
proof -
  define d where "d = deadline - now"
  have "(20 \<le> real_of_int d / 3600000) \<longleftrightarrow> 72000000 \<le> d"
    by (simp add: field_simps)
  moreover have "(real_of_int d / 3600000 < 29) \<longleftrightarrow> d < 104400000"
    by (simp add: field_simps)
  ultimately show ?thesis
    unfolding hours_until_deadline_def d_def by blast
qed

text \<open>
  With the deadline 28 and a half hours away (and the round not yet triggered) the
  reminder fires, although 28.5 does not lie in [20, 28]: \<open>differenceInHours\<close> counts
  28 whole hours.
\<close>

theorem deadline_28_and_a_half_hours_away_fires:
  "shouldTrigger (checkTrigger 1000
      (ex_game\<lparr> next_trade_deadline := Some (1000 + 102600000) \<rparr>)
      (ex_trigger\<lparr> trigger_type := ''deadline_reminder_24h'', last_triggered_round := Some 4 \<rparr>))
   \<and> hours_until_deadline (1000 + 102600000) 1000 = 57 / 2
   \<and> \<not> hours_until_deadline (1000 + 102600000) 1000 \<le> 28"
  by (simp add: checkTrigger_def checkDeadlineReminder24h_def differenceInHours_def
        DEADLINE_REMINDER_MIN_HOURS_def DEADLINE_REMINDER_MAX_HOURS_def
        hours_until_deadline_def ex_game_def ex_trigger_def)

text \<open>
  C7, amended. The \<open>deadline_reminder_24h\<close> trigger fires exactly when
  \<open>next_trade_deadline\<close> is set, the time until the deadline is at least 20 hours and
  less than 29 hours (its whole hours, as \<open>differenceInHours\<close> counts them, lie between
  20 and 28), and \<open>last_triggered_round\<close> differs from \<open>current_round\<close>. A deadline 25
  hours away fires (for a round not yet triggered), and so does one 28 and a half hours
  away; one 19 hours away and one 29 hours away do not.
\<close>

theorem deadline_reminder_fire_condition:
  assumes "trigger_type trigger = ''deadline_reminder_24h''"
  shows "(shouldTrigger (checkTrigger now game trigger) \<longleftrightarrow>
            (\<exists>deadline. next_trade_deadline game = Some deadline \<and>
               20 \<le> hours_until_deadline deadline now \<and> hours_until_deadline deadline now < 29) \<and>
            last_triggered_round trigger \<noteq> current_round game)
       \<and> (shouldTrigger (checkTrigger now game trigger) \<longleftrightarrow>
            (\<exists>deadline. next_trade_deadline game = Some deadline \<and>
               20 \<le> differenceInHours deadline now \<and> differenceInHours deadline now \<le> 28) \<and>
            last_triggered_round trigger \<noteq> current_round game)
       \<and> (next_trade_deadline game = Some (now + 25 * 3600000) \<and>
            last_triggered_round trigger \<noteq> current_round game \<longrightarrow>
            shouldTrigger (checkTrigger now game trigger))
       \<and> (next_trade_deadline game = Some (now + 28 * 3600000 + 1800000) \<and>
            last_triggered_round trigger \<noteq> current_round game \<longrightarrow>
            shouldTrigger (checkTrigger now game trigger))
       \<and> (next_trade_deadline game = Some (now + 19 * 3600000) \<longrightarrow>
            \<not> shouldTrigger (checkTrigger now game trigger))
       \<and> (next_trade_deadline game = Some (now + 29 * 3600000) \<longrightarrow>
            \<not> shouldTrigger (checkTrigger now game trigger))"
proof -
  have ct: "checkTrigger now game trigger = checkDeadlineReminder24h now game trigger"
    using assms by (simp add: checkTrigger_def)
  have whole: "shouldTrigger (checkTrigger now game trigger) \<longleftrightarrow>
            (\<exists>deadline. next_trade_deadline game = Some deadline \<and>
               20 \<le> differenceInHours deadline now \<and> differenceInHours deadline now \<le> 28) \<and>
            last_triggered_round trigger \<noteq> current_round game"
    unfolding ct by (rule checkDeadline_iff)
  have hours: "shouldTrigger (checkTrigger now game trigger) \<longleftrightarrow>
            (\<exists>deadline. next_trade_deadline game = Some deadline \<and>
               20 \<le> hours_until_deadline deadline now \<and> hours_until_deadline deadline now < 29) \<and>
            last_triggered_round trigger \<noteq> current_round game"
    unfolding whole differenceInHours_window hours_until_deadline_window ..
  have h25: "differenceInHours (now + 25 * 3600000) now = 25"
    and h285: "differenceInHours (now + 28 * 3600000 + 1800000) now = 28"
    and h19: "differenceInHours (now + 19 * 3600000) now = 19"
    and h29: "differenceInHours (now + 29 * 3600000) now = 29"
    by (simp_all add: differenceInHours_def)
  have e25: "next_trade_deadline game = Some (now + 25 * 3600000) \<and>
            last_triggered_round trigger \<noteq> current_round game \<longrightarrow>
            shouldTrigger (checkTrigger now game trigger)"
    unfolding whole using h25 by auto
  have e285: "next_trade_deadline game = Some (now + 28 * 3600000 + 1800000) \<and>
            last_triggered_round trigger \<noteq> current_round game \<longrightarrow>
            shouldTrigger (checkTrigger now game trigger)"
    unfolding whole using h285 by auto
  have e19: "next_trade_deadline game = Some (now + 19 * 3600000) \<longrightarrow>
            \<not> shouldTrigger (checkTrigger now game trigger)"
    unfolding whole using h19 by auto
  have e29: "next_trade_deadline game = Some (now + 29 * 3600000) \<longrightarrow>
            \<not> shouldTrigger (checkTrigger now game trigger)"
    unfolding whole using h29 by auto
  show ?thesis using hours whole e25 e285 e19 e29 by blast
qed

theorem deadline_reminder_fire_condition_witness:
  "shouldTrigger (checkTrigger 1000
      (ex_game\<lparr> next_trade_deadline := Some (1000 + 25 * 3600000) \<rparr>)
      (ex_trigger\<lparr> trigger_type := ''deadline_reminder_24h'', last_triggered_round := Some 4 \<rparr>))
   \<and> shouldTrigger (checkTrigger 1000
      (ex_game\<lparr> next_trade_deadline := Some (1000 + 28 * 3600000 + 1800000) \<rparr>)
      (ex_trigger\<lparr> trigger_type := ''deadline_reminder_24h'', last_triggered_round := Some 4 \<rparr>))
   \<and> \<not> shouldTrigger (checkTrigger 1000
      (ex_game\<lparr> next_trade_deadline := Some (1000 + 19 * 3600000) \<rparr>)
      (ex_trigger\<lparr> trigger_type := ''deadline_reminder_24h'', last_triggered_round := Some 4 \<rparr>))
   \<and> \<not> shouldTrigger (checkTrigger 1000
      (ex_game\<lparr> next_trade_deadline := Some (1000 + 29 * 3600000) \<rparr>)
      (ex_trigger\<lparr> trigger_type := ''deadline_reminder_24h'', last_triggered_round := Some 4 \<rparr>))"
  using deadline_reminder_fire_condition
          [of "ex_trigger\<lparr> trigger_type := ''deadline_reminder_24h'', last_triggered_round := Some 4 \<rparr>"
              1000 "ex_game\<lparr> next_trade_deadline := Some (1000 + 25 * 3600000) \<rparr>"]
        deadline_reminder_fire_condition
          [of "ex_trigger\<lparr> trigger_type := ''deadline_reminder_24h'', last_triggered_round := Some 4 \<rparr>"
              1000 "ex_game\<lparr> next_trade_deadline := Some (1000 + 28 * 3600000 + 1800000) \<rparr>"]
        deadline_reminder_fire_condition
          [of "ex_trigger\<lparr> trigger_type := ''deadline_reminder_24h'', last_triggered_round := Some 4 \<rparr>"
              1000 "ex_game\<lparr> next_trade_deadline := Some (1000 + 19 * 3600000) \<rparr>"]
        deadline_reminder_fire_condition
          [of "ex_trigger\<lparr> trigger_type := ''deadline_reminder_24h'', last_triggered_round := Some 4 \<rparr>"
              1000 "ex_game\<lparr> next_trade_deadline := Some (1000 + 29 * 3600000) \<rparr>"]
  by (simp add: ex_game_def ex_trigger_def differenceInHours_def hours_until_deadline_def)

subsection \<open>Skipped triggers\<close>


text \<open>
  C6. A trigger whose fire condition is false should leave a \<open>skipped\<close> row with the
  reason in \<open>trigger_logs\<close> and dispatch nothing. Evaluated on a \<open>round_started\<close>
  trigger already fired for round 5 of a game in round 5, \<open>processTrigger\<close> returns the
  reason in its result and dispatches nothing, but it issues no write at all: the
  \<open>skipped\<close> status that \<open>logTrigger\<close> and the \<open>trigger_logs\<close> schema provide for
  is never recorded.
\<close>

theorem processTrigger_skip_writes_no_log:
  "processTrigger (ex_env (Responded 201 (Json \<lparr> dispatch_id = Some ''d1'', message = None, errors = None \<rparr>)))
      1000 ex_game ex_trigger =
     (\<lparr> tr_success = True, tr_triggered = False,
        tr_message = ''Already triggered for round 5'', tr_brazeResponse = None \<rparr>, [])"
  by code_simp

subsection \<open>Fired triggers\<close>

lemma processTrigger_fire:
  assumes "shouldTrigger (checkTrigger now game trigger)"
  shows "processTrigger env now game trigger =
     (let result = fst (triggerBrazeCampaign env (braze_campaign_id trigger)
                          (trigger_properties game trigger));
          sent = snd (triggerBrazeCampaign env (braze_campaign_id trigger)
                          (trigger_properties game trigger))
      in (\<lparr> tr_success = d_success result, tr_triggered = True,
            tr_message =
              (if d_success result then ''Campaign triggered for '' @ trigger_type trigger
               else ''Failed to trigger: ''
                      @ (case d_error result of None \<Rightarrow> ''undefined'' | Some e \<Rightarrow> e)),
            tr_brazeResponse = d_response result \<rparr>,
          map HttpSend sent
          @ [InsertTriggerLog
               \<lparr> tl_game_id = game_id game, tl_trigger_id = trigger_id trigger,
                 tl_trigger_type = trigger_type trigger,
                 tl_round_index = round_or_1 (current_round game),
                 tl_status = (if d_success result then triggered else failed),
                 tl_braze_response = d_response result,
                 tl_error_message = d_error result \<rparr>]
          @ (if d_success result
             then [UpdateTrigger (trigger_id trigger) now (round_or_1 (current_round game))]
             else [])))"
  using assms
  by (simp add: processTrigger_def Let_def logTrigger_def updateTriggerLastTriggered_def
        split: prod.splits)

lemma inserted_logs_append: "inserted_logs (xs @ ys) = inserted_logs xs @ inserted_logs ys"
  by (induction xs rule: inserted_logs.induct) simp_all

lemma inserted_logs_HttpSend: "inserted_logs (map HttpSend rs) = []"
  by (induction rs) simp_all

lemma trigger_after_append:
  "trigger_after (xs @ ys) t = trigger_after ys (trigger_after xs t)"
  by (simp add: trigger_after_def)

lemma trigger_after_HttpSend: "trigger_after (map HttpSend rs) t = t"
  by (induction rs) (simp_all add: trigger_after_def)

lemma processTrigger_logs:
  assumes "shouldTrigger (checkTrigger now game trigger)"
  shows "inserted_logs (snd (processTrigger env now game trigger)) =
     (let result = fst (triggerBrazeCampaign env (braze_campaign_id trigger)
                          (trigger_properties game trigger))
      in [\<lparr> tl_game_id = game_id game, tl_trigger_id = trigger_id trigger,
            tl_trigger_type = trigger_type trigger,
            tl_round_index = round_or_1 (current_round game),
            tl_status = (if d_success result then triggered else failed),
            tl_braze_response = d_response result,
            tl_error_message = d_error result \<rparr>])"
  by (simp add: processTrigger_fire [OF assms] Let_def inserted_logs_append
        inserted_logs_HttpSend)

lemma processTrigger_trigger_after:
  assumes "shouldTrigger (checkTrigger now game trigger)"
  shows "trigger_after (snd (processTrigger env now game trigger)) trigger =
     (if d_success (fst (triggerBrazeCampaign env (braze_campaign_id trigger)
                          (trigger_properties game trigger)))
      then trigger\<lparr> last_triggered_at := Some now,
                    last_triggered_round := Some (round_or_1 (current_round game)) \<rparr>
      else trigger)"
  by (simp add: processTrigger_fire [OF assms] Let_def trigger_after_append
        trigger_after_HttpSend) (simp add: trigger_after_def)

text \<open>
  C10. When a trigger fires for a game whose \<open>current_round\<close> is null or 0, the writes
  of \<open>processTrigger\<close> are the dispatch's requests followed by one row for
  \<open>trigger_logs\<close> with \<open>round_index\<close> 1 and, exactly when the dispatch of
  \<open>triggerBrazeCampaign\<close> succeeds, the update of the trigger that sets
  \<open>last_triggered_round\<close> to 1, not to the stored round.
\<close>

theorem processTrigger_round_defaults_to_1:
  assumes "shouldTrigger (checkTrigger now game trigger)"
      and "current_round game = None \<or> current_round game = Some 0"
  shows "(let dispatch = triggerBrazeCampaign env (braze_campaign_id trigger)
                           (trigger_properties game trigger);
              res = fst dispatch;
              effects = snd (processTrigger env now game trigger);
              row = (\<lambda>st. \<lparr> tl_game_id = game_id game, tl_trigger_id = trigger_id trigger,
                            tl_trigger_type = trigger_type trigger, tl_round_index = 1,
                            tl_status = st, tl_braze_response = d_response res,
                            tl_error_message = d_error res \<rparr>)
          in (d_success res \<longrightarrow>
                effects = map HttpSend (snd dispatch)
                          @ [InsertTriggerLog (row triggered),
                             UpdateTrigger (trigger_id trigger) now 1]
                \<and> last_triggered_round (trigger_after effects trigger) = Some 1)
           \<and> (\<not> d_success res \<longrightarrow>
                effects = map HttpSend (snd dispatch) @ [InsertTriggerLog (row failed)]
                \<and> trigger_after effects trigger = trigger)
           \<and> map tl_round_index (inserted_logs effects) = [1])"
proof -
  have r: "round_or_1 (current_round game) = 1"
    using assms(2) by (auto simp: round_or_1_def)
  have logs: "map tl_round_index (inserted_logs (snd (processTrigger env now game trigger))) = [1]"
    by (simp add: processTrigger_logs [OF assms(1)] Let_def r)
  have aft: "trigger_after (snd (processTrigger env now game trigger)) trigger =
     (if d_success (fst (triggerBrazeCampaign env (braze_campaign_id trigger)
                          (trigger_properties game trigger)))
      then trigger\<lparr> last_triggered_at := Some now, last_triggered_round := Some 1 \<rparr>
      else trigger)"
    unfolding processTrigger_trigger_after [OF assms(1)] r ..
  have effs: "snd (processTrigger env now game trigger) =
     map HttpSend (snd (triggerBrazeCampaign env (braze_campaign_id trigger)
                          (trigger_properties game trigger)))
     @ [InsertTriggerLog
          \<lparr> tl_game_id = game_id game, tl_trigger_id = trigger_id trigger,
            tl_trigger_type = trigger_type trigger, tl_round_index = 1,
            tl_status = (if d_success (fst (triggerBrazeCampaign env (braze_campaign_id trigger)
                                              (trigger_properties game trigger)))
                         then triggered else failed),
            tl_braze_response = d_response (fst (triggerBrazeCampaign env
                                  (braze_campaign_id trigger) (trigger_properties game trigger))),
            tl_error_message = d_error (fst (triggerBrazeCampaign env
                                  (braze_campaign_id trigger) (trigger_properties game trigger))) \<rparr>]
     @ (if d_success (fst (triggerBrazeCampaign env (braze_campaign_id trigger)
                             (trigger_properties game trigger)))
        then [UpdateTrigger (trigger_id trigger) now 1] else [])"
    by (simp add: processTrigger_fire [OF assms(1)] Let_def r)
  show ?thesis
    unfolding Let_def
  proof (intro conjI impI)
    assume s: "d_success (fst (triggerBrazeCampaign env (braze_campaign_id trigger)
                                 (trigger_properties game trigger)))"
    show "snd (processTrigger env now game trigger) =
       map HttpSend (snd (triggerBrazeCampaign env (braze_campaign_id trigger)
                            (trigger_properties game trigger)))
       @ [InsertTriggerLog
            \<lparr> tl_game_id = game_id game, tl_trigger_id = trigger_id trigger,
              tl_trigger_type = trigger_type trigger, tl_round_index = 1,
              tl_status = triggered,
              tl_braze_response = d_response (fst (triggerBrazeCampaign env
                                    (braze_campaign_id trigger) (trigger_properties game trigger))),
              tl_error_message = d_error (fst (triggerBrazeCampaign env
                                    (braze_campaign_id trigger) (trigger_properties game trigger))) \<rparr>,
          UpdateTrigger (trigger_id trigger) now 1]"
      using s by (subst effs) simp
    show "last_triggered_round
            (trigger_after (snd (processTrigger env now game trigger)) trigger) = Some 1"
      using s by (subst aft) simp
  next
    assume s: "\<not> d_success (fst (triggerBrazeCampaign env (braze_campaign_id trigger)
                                   (trigger_properties game trigger)))"
    show "snd (processTrigger env now game trigger) =
       map HttpSend (snd (triggerBrazeCampaign env (braze_campaign_id trigger)
                            (trigger_properties game trigger)))
       @ [InsertTriggerLog
            \<lparr> tl_game_id = game_id game, tl_trigger_id = trigger_id trigger,
              tl_trigger_type = trigger_type trigger, tl_round_index = 1,
              tl_status = failed,
              tl_braze_response = d_response (fst (triggerBrazeCampaign env
                                    (braze_campaign_id trigger) (trigger_properties game trigger))),
              tl_error_message = d_error (fst (triggerBrazeCampaign env
                                    (braze_campaign_id trigger) (trigger_properties game trigger))) \<rparr>]"
      using s by (subst effs) simp
    show "trigger_after (snd (processTrigger env now game trigger)) trigger = trigger"
      using s by (subst aft) simp
  next
    show "map tl_round_index (inserted_logs (snd (processTrigger env now game trigger))) = [1]"
      by (rule logs)
  qed
qed

theorem processTrigger_round_defaults_to_1_witness:
  "shouldTrigger (checkTrigger 1000 ex_game_round0 ex_trigger)
   \<and> current_round ex_game_round0 = Some 0
   \<and> braze_campaign_id ex_trigger = ''c1''
   \<and> triggerBrazeCampaign (ex_env (Responded 201 (Json ex_accepted))) ''c1''
        (trigger_properties ex_game_round0 ex_trigger)
     = (\<lparr> d_success = True, d_response = Some ex_accepted, d_error = None \<rparr>,
        [braze_request (ex_env (Responded 201 (Json ex_accepted))) ''c1''
           (trigger_properties ex_game_round0 ex_trigger)])
   \<and> snd (processTrigger (ex_env (Responded 201 (Json ex_accepted))) 1000 ex_game_round0 ex_trigger)
     = [HttpSend (braze_request (ex_env (Responded 201 (Json ex_accepted))) ''c1''
                    (trigger_properties ex_game_round0 ex_trigger)),
        InsertTriggerLog
          \<lparr> tl_game_id = ''g1'', tl_trigger_id = ''t1'', tl_trigger_type = ''round_started'',
            tl_round_index = 1, tl_status = triggered, tl_braze_response = Some ex_accepted,
            tl_error_message = None \<rparr>,
        UpdateTrigger ''t1'' 1000 1]
   \<and> last_triggered_round
        (trigger_after
           (snd (processTrigger (ex_env (Responded 201 (Json ex_accepted))) 1000
                   ex_game_round0 ex_trigger))
           ex_trigger) = Some 1
   \<and> shouldTrigger (checkTrigger 1000 ex_game_no_round ex_trigger)
   \<and> current_round ex_game_no_round = None
   \<and> snd (processTrigger (ex_env AbortError) 1000 ex_game_no_round ex_trigger)
     = [HttpSend (braze_request (ex_env AbortError) ''c1''
                    (trigger_properties ex_game_no_round ex_trigger)),
        InsertTriggerLog
          \<lparr> tl_game_id = ''g1'', tl_trigger_id = ''t1'', tl_trigger_type = ''round_started'',
            tl_round_index = 1, tl_status = failed, tl_braze_response = None,
            tl_error_message = Some ''Braze request timeout'' \<rparr>]"
proof -
  let ?ok = "ex_env (Responded 201 (Json ex_accepted))"
  let ?ko = "ex_env AbortError"
  have f0: "shouldTrigger (checkTrigger 1000 ex_game_round0 ex_trigger)"
    by (simp add: checkTrigger_def checkRoundStarted_def ex_game_round0_def ex_game_def
          ex_trigger_def)
  have c0: "current_round ex_game_round0 = None \<or> current_round ex_game_round0 = Some 0"
    by (simp add: ex_game_round0_def ex_game_def)
  have fn: "shouldTrigger (checkTrigger 1000 ex_game_no_round ex_trigger)"
    by (simp add: checkTrigger_def checkRoundStarted_def ex_game_no_round_def ex_game_def
          ex_trigger_def)
  have cn: "current_round ex_game_no_round = None \<or> current_round ex_game_no_round = Some 0"
    by (simp add: ex_game_no_round_def ex_game_def)
  have cid: "braze_campaign_id ex_trigger = ''c1''" "trigger_id ex_trigger = ''t1''"
    "trigger_type ex_trigger = ''round_started''"
    by (simp_all add: ex_trigger_def)
  have gid: "game_id ex_game_round0 = ''g1''" "game_id ex_game_no_round = ''g1''"
    by (simp_all add: ex_game_round0_def ex_game_no_round_def ex_game_def)
  have dok: "triggerBrazeCampaign ?ok ''c1'' p
     = (\<lparr> d_success = True, d_response = Some ex_accepted, d_error = None \<rparr>,
        [braze_request ?ok ''c1'' p])" for p
    by (simp add: triggerBrazeCampaign_def Let_def ex_env_def brazeApiUrl_def brazeApiKey_def
          env_or_empty_def response_ok_def)
  have dko: "triggerBrazeCampaign ?ko ''c1'' p
     = (\<lparr> d_success = False, d_response = None, d_error = Some ''Braze request timeout'' \<rparr>,
        [braze_request ?ko ''c1'' p])" for p
    by (simp add: triggerBrazeCampaign_def Let_def ex_env_def brazeApiUrl_def brazeApiKey_def
          env_or_empty_def)
  note a = processTrigger_round_defaults_to_1 [OF f0 c0, of ?ok, unfolded Let_def cid gid dok, simplified]
  note b = processTrigger_round_defaults_to_1 [OF fn cn, of ?ko, unfolded Let_def cid gid dko, simplified]
  have c0': "current_round ex_game_round0 = Some 0"
    by (simp add: ex_game_round0_def ex_game_def)
  have cn': "current_round ex_game_no_round = None"
    by (simp add: ex_game_no_round_def ex_game_def)
  show ?thesis
    using a b f0 fn c0' cn' cid(1) dok by blast
qed






lemma checkRoundStarted_iff:
  "shouldTrigger (checkRoundStarted game trigger) \<longleftrightarrow>
     round_state game = Some ''CurrentOpen''
     \<and> last_triggered_round trigger \<noteq> current_round game"
  by (simp add: checkRoundStarted_def)

lemma checkRoundEnded_iff:
  "shouldTrigger (checkRoundEnded game trigger) \<longleftrightarrow>
     (round_state game = Some ''Ended'' \<or> round_state game = Some ''EndedLastest'')
     \<and> last_triggered_round trigger \<noteq> current_round game"
  by (auto simp: checkRoundEnded_def)

text \<open>
  The fire condition of a trigger: the watermark differs from the current round, and
  the part that belongs to the trigger's type holds.
\<close>

lemma checkTrigger_iff:
  "shouldTrigger (checkTrigger now game trigger) \<longleftrightarrow>
     last_triggered_round trigger \<noteq> current_round game
     \<and> ((trigger_type trigger = ''round_started'' \<and> round_state game = Some ''CurrentOpen'')
        \<or> (trigger_type trigger = ''round_ended''
            \<and> (round_state game = Some ''Ended'' \<or> round_state game = Some ''EndedLastest''))
        \<or> (trigger_type trigger = ''deadline_reminder_24h''
            \<and> (\<exists>deadline. next_trade_deadline game = Some deadline
                  \<and> 20 \<le> differenceInHours deadline now
                  \<and> differenceInHours deadline now \<le> 28)))"
proof (cases "trigger_type trigger = ''deadline_reminder_24h''")
  case True
  then show ?thesis
    by (simp add: checkTrigger_def checkDeadline_iff) blast
next
  case d: False
  show ?thesis
  proof (cases "trigger_type trigger = ''round_started''")
    case True
    then show ?thesis
      by (simp add: checkTrigger_def checkRoundStarted_iff) blast
  next
    case s: False
    show ?thesis
    proof (cases "trigger_type trigger = ''round_ended''")
      case True
      then show ?thesis
        by (simp add: checkTrigger_def checkRoundEnded_iff) blast
    next
      case False
      then show ?thesis using d s by (simp add: checkTrigger_def)
    qed
  qed
qed

text \<open>
  A deadline reminder whose dispatch fails is not always fired again: with the deadline
  20 and a half hours ahead the reminder fires and its dispatch times out; one hour
  later the trigger row is unchanged, but the deadline is 19 whole hours ahead and the
  reminder no longer fires.
\<close>

lemma failed_deadline_reminder_outside_window_later:
  "shouldTrigger (checkTrigger 1000 ex_game_deadline_soon ex_deadline_trigger)
   \<and> \<not> tr_success (fst (processTrigger (ex_env AbortError) 1000 ex_game_deadline_soon
                          ex_deadline_trigger))
   \<and> trigger_after (snd (processTrigger (ex_env AbortError) 1000 ex_game_deadline_soon
                           ex_deadline_trigger)) ex_deadline_trigger = ex_deadline_trigger
   \<and> \<not> shouldTrigger (checkTrigger (1000 + 3600000) ex_game_deadline_soon
          (trigger_after (snd (processTrigger (ex_env AbortError) 1000 ex_game_deadline_soon
                                 ex_deadline_trigger)) ex_deadline_trigger))"
proof -
  have f: "shouldTrigger (checkTrigger 1000 ex_game_deadline_soon ex_deadline_trigger)"
    by (simp add: checkTrigger_iff differenceInHours_def ex_game_deadline_soon_def ex_game_def
          ex_deadline_trigger_def ex_trigger_def)
  have ko: "\<not> d_success (fst (triggerBrazeCampaign (ex_env AbortError) cid p))" for cid p
    by (simp add: triggerBrazeCampaign_def ex_env_def brazeApiUrl_def brazeApiKey_def
          env_or_empty_def)
  have s: "\<not> tr_success (fst (processTrigger (ex_env AbortError) 1000 ex_game_deadline_soon
                          ex_deadline_trigger))"
    by (simp add: processTrigger_fire [OF f] Let_def ko)
  have same: "trigger_after (snd (processTrigger (ex_env AbortError) 1000 ex_game_deadline_soon
                           ex_deadline_trigger)) ex_deadline_trigger = ex_deadline_trigger"
    by (simp add: processTrigger_trigger_after [OF f] ko)
  have later: "\<not> shouldTrigger (checkTrigger (1000 + 3600000) ex_game_deadline_soon
                                  ex_deadline_trigger)"
    by (simp add: checkTrigger_iff differenceInHours_def ex_game_deadline_soon_def ex_game_def
          ex_deadline_trigger_def ex_trigger_def)
  show ?thesis using f s later unfolding same by simp
qed



text \<open>
  The three ways one pass through the loop body continues.
\<close>

lemma loop_stop:
  assumes "attempt \<le> maxRetries + 1" "\<not> is_transient (send attempt)"
  shows "requestWithRetry_loop send maxRetries attempt lastResponse trace
           = (Some (send attempt), trace @ [Attempt attempt])"
  using assms
  by (subst requestWithRetry_loop.simps) (auto simp: is_transient_def Let_def)

lemma loop_retry:
  assumes "attempt \<le> maxRetries" "is_transient (send attempt)"
  shows "requestWithRetry_loop send maxRetries attempt lastResponse trace
           = requestWithRetry_loop send maxRetries (attempt + 1) (Some (send attempt))
               (trace @ [Attempt attempt, Sleep (RETRY_BASE_DELAY_MS * 2 ^ (attempt - 1))])"
  using assms
  by (subst requestWithRetry_loop.simps) (auto simp: is_transient_def Let_def)

lemma loop_exhausted:
  assumes "attempt = maxRetries + 1" "is_transient (send attempt)"
  shows "requestWithRetry_loop send maxRetries attempt lastResponse trace
           = (Some (send attempt), trace @ [Attempt attempt])"
  using assms
  by (subst requestWithRetry_loop.simps, subst (2) requestWithRetry_loop.simps)
     (auto simp: is_transient_def Let_def)

lemma backoff_trace_Suc:
  "1 \<le> k \<Longrightarrow> backoff_trace (Suc k)
     = backoff_trace k @ [Attempt k, Sleep (RETRY_BASE_DELAY_MS * 2 ^ (k - 1))]"
  by (simp add: backoff_trace_def)

text \<open>
  The loop from attempt \<open>a\<close> on, when every attempt before \<open>k\<close> is a transient failure
  and attempt \<open>k\<close> either ends the loop by itself or is the last one allowed.
\<close>

lemma loop_runs_to:
  assumes "a \<le> k" "k \<le> maxRetries + 1"
      and "\<forall>j. a \<le> j \<and> j < k \<longrightarrow> is_transient (send j)"
      and "\<not> is_transient (send k) \<or> k = maxRetries + 1"
  shows "requestWithRetry_loop send maxRetries a lastResponse trace
           = (Some (send k),
              trace @ concat (map (\<lambda>i. [Attempt i, Sleep (RETRY_BASE_DELAY_MS * 2 ^ (i - 1))])
                               [a..<k]) @ [Attempt k])"
  using assms
proof (induction "k - a" arbitrary: a lastResponse trace)
  case 0
  then have ak: "a = k" by simp
  show ?case
  proof (cases "is_transient (send k)")
    case True
    with 0 have "k = maxRetries + 1" by blast
    then show ?thesis using True ak by (simp add: loop_exhausted)
  next
    case False
    then show ?thesis using ak 0 by (simp add: loop_stop)
  qed
next
  case (Suc n)
  then have lt: "a < k" and tr: "is_transient (send a)" and le: "a \<le> maxRetries"
    by auto
  have step: "requestWithRetry_loop send maxRetries a lastResponse trace
           = requestWithRetry_loop send maxRetries (a + 1) (Some (send a))
               (trace @ [Attempt a, Sleep (RETRY_BASE_DELAY_MS * 2 ^ (a - 1))])"
    using le tr by (rule loop_retry)
  have ih: "requestWithRetry_loop send maxRetries (a + 1) (Some (send a))
               (trace @ [Attempt a, Sleep (RETRY_BASE_DELAY_MS * 2 ^ (a - 1))])
           = (Some (send k),
              (trace @ [Attempt a, Sleep (RETRY_BASE_DELAY_MS * 2 ^ (a - 1))])
              @ concat (map (\<lambda>i. [Attempt i, Sleep (RETRY_BASE_DELAY_MS * 2 ^ (i - 1))])
                               [a + 1..<k]) @ [Attempt k])"
    using Suc.hyps(2) Suc.prems lt
    by (intro Suc.hyps(1)) auto
  have up: "[a..<k] = a # [a + 1..<k]"
    using lt by (simp add: upt_conv_Cons)
  show ?case
    unfolding step ih up by simp
qed

lemma requestWithRetry_runs_to:
  assumes "1 \<le> k" "k \<le> maxRetries + 1"
      and "\<forall>j. 1 \<le> j \<and> j < k \<longrightarrow> is_transient (send j)"
      and "\<not> is_transient (send k) \<or> k = maxRetries + 1"
  shows "requestWithRetry send maxRetries = (Some (send k), backoff_trace k @ [Attempt k])"
  unfolding requestWithRetry_def backoff_trace_def
  using loop_runs_to [OF assms(1) assms(2) assms(3) assms(4), of None "[]"] by simp

lemma request_success: "success_fetch outcome \<Longrightarrow> \<not> is_transient (request t outcome)"
  by (auto simp: success_fetch_def request_def is_transient_def is_success_def truthy_def
        split: swush_fetch.splits json_body.splits)

lemma request_falsy_body: "falsy_body_fetch outcome \<Longrightarrow> is_transient (request t outcome)"
  by (auto simp: falsy_body_fetch_def request_def is_transient_def is_success_def truthy_def
        isClientError_def isRetryableClientError_def response_ok_def
        split: swush_fetch.splits json_body.splits)

lemma request_transient: "transient_fetch outcome \<Longrightarrow> is_transient (request t outcome)"
  by (auto simp: transient_fetch_def request_def is_transient_def is_success_def truthy_def
        isClientError_def isRetryableClientError_def response_ok_def
        split: swush_fetch.splits json_body.splits)

lemma request_permanent: "permanent_fetch outcome \<Longrightarrow> \<not> is_transient (request t outcome)"
  by (auto simp: permanent_fetch_def request_def is_transient_def is_success_def truthy_def
        isClientError_def isRetryableClientError_def response_ok_def
        split: swush_fetch.splits json_body.splits)

text \<open>
  The loop always ends with a response: that of the first attempt that is not a
  transient failure, or of the last attempt allowed.
\<close>

lemma requestWithRetry_total:
  "\<exists>k. 1 \<le> k \<and> k \<le> maxRetries + 1
       \<and> requestWithRetry send maxRetries = (Some (send k), backoff_trace k @ [Attempt k])"
proof -
  define P where "P j \<longleftrightarrow> 1 \<le> j \<and> (\<not> is_transient (send j) \<or> j = maxRetries + 1)" for j
  have ex: "P (maxRetries + 1)" by (simp add: P_def)
  define k where "k = (LEAST j. P j)"
  have Pk: "P k" unfolding k_def using ex by (rule LeastI)
  have le: "k \<le> maxRetries + 1" unfolding k_def using ex by (rule Least_le)
  have before: "\<forall>j. 1 \<le> j \<and> j < k \<longrightarrow> is_transient (send j)"
  proof (intro allI impI)
    fix j assume j: "1 \<le> j \<and> j < k"
    then have "\<not> P j" unfolding k_def using not_less_Least by blast
    with j show "is_transient (send j)" by (auto simp: P_def)
  qed
  have "requestWithRetry send maxRetries = (Some (send k), backoff_trace k @ [Attempt k])"
    using Pk le before by (intro requestWithRetry_runs_to) (auto simp: P_def)
  then show ?thesis using Pk le by (auto simp: P_def)
qed

lemma attempts_append: "attempts (xs @ ys) = attempts xs @ attempts ys"
  by (induction xs rule: attempts.induct) simp_all

lemma attempts_backoff_trace: "attempts (backoff_trace k) = [1..<k]"
proof (induction k)
  case 0
  then show ?case by (simp add: backoff_trace_def)
next
  case (Suc k)
  show ?case
  proof (cases "1 \<le> k")
    case True
    then show ?thesis
      by (simp add: backoff_trace_Suc attempts_append Suc.IH)
  next
    case False
    then show ?thesis by (simp add: backoff_trace_def)
  qed
qed

lemma backoff_trace_4:
  "backoff_trace 4 = [Attempt 1, Sleep 1000, Attempt 2, Sleep 2000, Attempt 3, Sleep 4000]"
proof -
  have "[1..<4] = [1, 2, 3::nat]" by (simp add: upt_rec)
  then show ?thesis by (simp add: backoff_trace_def RETRY_BASE_DELAY_MS_def)
qed

text \<open>
  A page that answers every attempt with status 200 and the body \<open>0\<close>: the first
  attempt already is a 2xx response, yet the call goes through all four attempts and
  their three sleeps, because the data of the response is falsy.
\<close>

theorem getUsers_retries_2xx_with_falsy_body:
  "response_ok 200
   \<and> getUsers ex_fetch_zero 2
     = (Some \<lparr> res_data = Some (JNumber 0), res_error = None, res_status = 200 \<rparr>,
        [Attempt 1, Sleep 1000, Attempt 2, Sleep 2000, Attempt 3, Sleep 4000, Attempt 4])"
proof -
  let ?send = "\<lambda>attempt. request DEFAULT_TIMEOUT_MS (ex_fetch_zero 2 attempt)"
  have falsy: "falsy_body_fetch (ex_fetch_zero 2 j)" for j
    by (simp add: falsy_body_fetch_def ex_fetch_zero_def response_ok_def)
  have "requestWithRetry ?send MAX_RETRIES = (Some (?send 4), backoff_trace 4 @ [Attempt 4])"
    by (rule requestWithRetry_runs_to) (simp_all add: MAX_RETRIES_def request_falsy_body falsy)
  then show ?thesis
    by (simp add: getUsers_def backoff_trace_4 request_def ex_fetch_zero_def response_ok_def)
qed

text \<open>
  C3, amended. The paginated users call makes at most 4 attempts. While the attempts
  are transient failures (timeout, transport error, 5xx, 408, 429) or 2xx responses
  whose JSON body is falsy (\<open>null\<close>, \<open>false\<close>, 0, the empty string), each is followed by
  a sleep of \<open>RETRY_BASE_DELAY_MS * 2 ^ (attempt - 1)\<close>, that is 1000, 2000 and 4000 ms;
  the first 2xx response with a truthy JSON body is returned with nothing after it;
  when all four attempts fail the response of the fourth is returned; and a 4xx other
  than 408 and 429 is returned at once, with no further attempt and no sleep after it.
\<close>

theorem getUsers_retry_policy:
  "length (attempts (snd (getUsers fetch_page page))) \<le> 4
   \<and> (\<forall>k. 1 \<le> k \<and> k \<le> 4
          \<and> (\<forall>j. 1 \<le> j \<and> j < k \<longrightarrow>
                transient_fetch (fetch_page page j) \<or> falsy_body_fetch (fetch_page page j))
          \<and> success_fetch (fetch_page page k) \<longrightarrow>
        getUsers fetch_page page
          = (Some (request DEFAULT_TIMEOUT_MS (fetch_page page k)),
             backoff_trace k @ [Attempt k]))
   \<and> ((\<forall>j. 1 \<le> j \<and> j \<le> 4 \<longrightarrow>
          transient_fetch (fetch_page page j) \<or> falsy_body_fetch (fetch_page page j)) \<longrightarrow>
        getUsers fetch_page page
          = (Some (request DEFAULT_TIMEOUT_MS (fetch_page page 4)),
             [Attempt 1, Sleep 1000, Attempt 2, Sleep 2000, Attempt 3, Sleep 4000, Attempt 4]))
   \<and> (\<forall>k. 1 \<le> k \<and> k \<le> 4
          \<and> (\<forall>j. 1 \<le> j \<and> j < k \<longrightarrow>
                transient_fetch (fetch_page page j) \<or> falsy_body_fetch (fetch_page page j))
          \<and> permanent_fetch (fetch_page page k) \<longrightarrow>
        getUsers fetch_page page
          = (Some (request DEFAULT_TIMEOUT_MS (fetch_page page k)),
             backoff_trace k @ [Attempt k]))
   \<and> backoff_trace 4 = [Attempt 1, Sleep 1000, Attempt 2, Sleep 2000, Attempt 3, Sleep 4000]"
proof -
  let ?send = "\<lambda>attempt. request DEFAULT_TIMEOUT_MS (fetch_page page attempt)"
  let ?retried = "\<lambda>j. transient_fetch (fetch_page page j) \<or> falsy_body_fetch (fetch_page page j)"
  have retried: "?retried j \<Longrightarrow> is_transient (?send j)" for j
    using request_transient request_falsy_body by blast
  have bound: "length (attempts (snd (getUsers fetch_page page))) \<le> 4"
  proof -
    obtain k where k: "1 \<le> k" "k \<le> MAX_RETRIES + 1"
      and r: "requestWithRetry ?send MAX_RETRIES = (Some (?send k), backoff_trace k @ [Attempt k])"
      using requestWithRetry_total [of MAX_RETRIES ?send] by blast
    have "length (attempts (snd (getUsers fetch_page page))) = k"
      using k(1) by (simp add: getUsers_def r attempts_append attempts_backoff_trace)
    then show ?thesis using k(2) by (simp add: MAX_RETRIES_def)
  qed
  have stop: "getUsers fetch_page page = (Some (?send k), backoff_trace k @ [Attempt k])"
    if "1 \<le> k" "k \<le> 4" "\<forall>j. 1 \<le> j \<and> j < k \<longrightarrow> ?retried j"
       "\<not> is_transient (?send k) \<or> k = 4" for k
    unfolding getUsers_def
    using that retried by (intro requestWithRetry_runs_to) (auto simp: MAX_RETRIES_def)
  have succ: "\<forall>k. 1 \<le> k \<and> k \<le> 4
          \<and> (\<forall>j. 1 \<le> j \<and> j < k \<longrightarrow> ?retried j)
          \<and> success_fetch (fetch_page page k) \<longrightarrow>
        getUsers fetch_page page = (Some (?send k), backoff_trace k @ [Attempt k])"
    using stop request_success by blast
  have perm: "\<forall>k. 1 \<le> k \<and> k \<le> 4
          \<and> (\<forall>j. 1 \<le> j \<and> j < k \<longrightarrow> ?retried j)
          \<and> permanent_fetch (fetch_page page k) \<longrightarrow>
        getUsers fetch_page page = (Some (?send k), backoff_trace k @ [Attempt k])"
    using stop request_permanent by blast
  have allfail: "(\<forall>j. 1 \<le> j \<and> j \<le> 4 \<longrightarrow> ?retried j) \<longrightarrow>
        getUsers fetch_page page
          = (Some (?send 4),
             [Attempt 1, Sleep 1000, Attempt 2, Sleep 2000, Attempt 3, Sleep 4000, Attempt 4])"
  proof
    assume a: "\<forall>j. 1 \<le> j \<and> j \<le> 4 \<longrightarrow> ?retried j"
    have "getUsers fetch_page page = (Some (?send 4), backoff_trace 4 @ [Attempt 4])"
      using a by (intro stop) auto
    then show "getUsers fetch_page page
          = (Some (?send 4),
             [Attempt 1, Sleep 1000, Attempt 2, Sleep 2000, Attempt 3, Sleep 4000, Attempt 4])"
      by (simp add: backoff_trace_4)
  qed
  show ?thesis using bound succ allfail perm backoff_trace_4 by blast
qed

theorem getUsers_retry_policy_witness:
  "getUsers ex_fetch_recovering 2
     = (Some \<lparr> res_data = Some ex_users_body, res_error = None, res_status = 200 \<rparr>,
        [Attempt 1, Sleep 1000, Attempt 2, Sleep 2000, Attempt 3, Sleep 4000, Attempt 4])
   \<and> getUsers ex_fetch_down 2
     = (Some \<lparr> res_data = None, res_error = Some ''HTTP 503: Service Unavailable'',
               res_status = 503 \<rparr>,
        [Attempt 1, Sleep 1000, Attempt 2, Sleep 2000, Attempt 3, Sleep 4000, Attempt 4])
   \<and> getUsers ex_fetch_missing 2
     = (Some \<lparr> res_data = None, res_error = Some ''HTTP 404: Not Found'', res_status = 404 \<rparr>,
        [Attempt 1])"
proof -
  have n503: "string_of_int 503 = ''503''" and n404: "string_of_int 404 = ''404''"
    by (simp_all add: string_of_int_def string_of_nat.simps)
  have t: "transient_fetch (FetchResponse 503 ''Service Unavailable'' InvalidJson)"
    by (simp add: transient_fetch_def)
  have s: "success_fetch (FetchResponse 200 ''OK'' (Json ex_users_body))"
    by (simp add: success_fetch_def response_ok_def ex_users_body_def)
  have p: "permanent_fetch (FetchResponse 404 ''Not Found'' InvalidJson)"
    by (simp add: permanent_fetch_def)
  have b1: "backoff_trace 1 = []"
    by (simp add: backoff_trace_def)
  have nn: "ex_users_body \<noteq> JNull"
    by (simp add: ex_users_body_def)
  have a: "getUsers ex_fetch_recovering 2
     = (Some (request DEFAULT_TIMEOUT_MS (ex_fetch_recovering 2 4)), backoff_trace 4 @ [Attempt 4])"
  proof -
    have "1 \<le> (4::nat) \<and> (4::nat) \<le> 4
          \<and> (\<forall>j. 1 \<le> j \<and> j < 4 \<longrightarrow>
                transient_fetch (ex_fetch_recovering 2 j)
                \<or> falsy_body_fetch (ex_fetch_recovering 2 j))
          \<and> success_fetch (ex_fetch_recovering 2 4) \<longrightarrow>
        getUsers ex_fetch_recovering 2
          = (Some (request DEFAULT_TIMEOUT_MS (ex_fetch_recovering 2 4)),
             backoff_trace 4 @ [Attempt 4])"
      using getUsers_retry_policy [of ex_fetch_recovering 2] by blast
    moreover have "\<forall>j. 1 \<le> j \<and> j < 4 \<longrightarrow>
                transient_fetch (ex_fetch_recovering 2 j)
                \<or> falsy_body_fetch (ex_fetch_recovering 2 j)"
      using t by (simp add: ex_fetch_recovering_def)
    moreover have "success_fetch (ex_fetch_recovering 2 4)"
      using s by (simp add: ex_fetch_recovering_def)
    ultimately show ?thesis by simp
  qed
  have b: "getUsers ex_fetch_down 2
     = (Some (request DEFAULT_TIMEOUT_MS (ex_fetch_down 2 4)),
        [Attempt 1, Sleep 1000, Attempt 2, Sleep 2000, Attempt 3, Sleep 4000, Attempt 4])"
  proof -
    have "(\<forall>j. 1 \<le> j \<and> j \<le> 4 \<longrightarrow>
             transient_fetch (ex_fetch_down 2 j) \<or> falsy_body_fetch (ex_fetch_down 2 j)) \<longrightarrow>
        getUsers ex_fetch_down 2
          = (Some (request DEFAULT_TIMEOUT_MS (ex_fetch_down 2 4)),
             [Attempt 1, Sleep 1000, Attempt 2, Sleep 2000, Attempt 3, Sleep 4000, Attempt 4])"
      using getUsers_retry_policy [of ex_fetch_down 2] by blast
    moreover have "\<forall>j. 1 \<le> j \<and> j \<le> 4 \<longrightarrow>
             transient_fetch (ex_fetch_down 2 j) \<or> falsy_body_fetch (ex_fetch_down 2 j)"
      using t by (simp add: ex_fetch_down_def)
    ultimately show ?thesis by blast
  qed
  have c: "getUsers ex_fetch_missing 2
     = (Some (request DEFAULT_TIMEOUT_MS (ex_fetch_missing 2 1)), backoff_trace 1 @ [Attempt 1])"
  proof -
    have "1 \<le> (1::nat) \<and> (1::nat) \<le> 4
          \<and> (\<forall>j. 1 \<le> j \<and> j < 1 \<longrightarrow>
                transient_fetch (ex_fetch_missing 2 j) \<or> falsy_body_fetch (ex_fetch_missing 2 j))
          \<and> permanent_fetch (ex_fetch_missing 2 1) \<longrightarrow>
        getUsers ex_fetch_missing 2
          = (Some (request DEFAULT_TIMEOUT_MS (ex_fetch_missing 2 1)),
             backoff_trace 1 @ [Attempt 1])"
      using getUsers_retry_policy [of ex_fetch_missing 2] by blast
    moreover have "permanent_fetch (ex_fetch_missing 2 1)"
      using p by (simp add: ex_fetch_missing_def)
    ultimately show ?thesis by simp
  qed
  have bt: "backoff_trace 4 = [Attempt 1, Sleep 1000, Attempt 2, Sleep 2000, Attempt 3, Sleep 4000]"
    using getUsers_retry_policy [of ex_fetch_down 2] by blast
  show ?thesis
    unfolding a b c bt b1
    by (simp add: request_def ex_fetch_recovering_def ex_fetch_down_def ex_fetch_missing_def
          response_ok_def n503 n404 nn)
qed

text \<open>
  The quotient comparisons of the source, as comparisons of millisecond counts.
\<close>

lemma hours_window:
  "(real_of_int d / (1000 * 60 * 60) > 0 \<and> real_of_int d / (1000 * 60 * 60) \<le> 2)
     \<longleftrightarrow> (0 < d \<and> d \<le> 2 * 3600000)"
  by (auto simp: field_simps)

lemma hours_since_window:
  "(real_of_int d / (1000 * 60 * 60) \<ge> 0 \<and> real_of_int d / (1000 * 60 * 60) \<le> 1)
     \<longleftrightarrow> (0 \<le> d \<and> d \<le> 3600000)"
  by (auto simp: field_simps)

lemma minutes_at_least:
  "real_of_int d / (1000 * 60) \<ge> real_of_int m \<longleftrightarrow> m * 60000 \<le> d"
proof -
  have "real_of_int d / (1000 * 60) \<ge> real_of_int m \<longleftrightarrow> real_of_int (m * 60000) \<le> real_of_int d"
    by (simp add: field_simps)
  then show ?thesis by (simp only: of_int_le_iff)
qed

lemma critical_iff: "critical (isInCriticalPeriod now game) = critical_period_with_state now game"
  unfolding isInCriticalPeriod_def critical_period_with_state_def round_start_window_def
    deadline_window_def round_end_window_def round_has_ended_def Let_def hours_window
    hours_since_window
  by (simp split: option.splits)

lemma gamesDue_loop_filter:
  "gamesDue_loop now games gamesDue
     = gamesDue @ filter (due_rule critical_period_with_state now) games"
proof (induction games arbitrary: gamesDue)
  case Nil
  then show ?case by simp
next
  case (Cons game games)
  have m30: "real_of_int d / (1000 * 60) \<ge> 30 \<longleftrightarrow> 30 * 60000 \<le> d" for d
    using minutes_at_least [of 30 d] by simp
  show ?case
    by (simp add: Cons.IH due_rule_def critical_iff Let_def m30 minutes_at_least
          split: option.splits)
qed

text \<open>
  An active game last synced 40 minutes ago, with an interval of 60 minutes, whose
  round ended 30 minutes ago but whose \<open>round_state\<close> is still \<open>CurrentOpen\<close>: by the
  three windows alone it is in a critical period and so due after 30 minutes, yet
  \<open>getGamesDueForSync\<close> does not select it.
\<close>

theorem round_end_window_without_ended_state_not_critical:
  "game_is_active ex_game_round_over_still_open
   \<and> critical_period_by_windows 0 ex_game_round_over_still_open
   \<and> due_rule critical_period_by_windows 0 ex_game_round_over_still_open
   \<and> getGamesDueForSync 0 (Inr [ex_game_round_over_still_open]) = []"
proof -
  have w: "critical_period_by_windows 0 ex_game_round_over_still_open"
    by (simp add: critical_period_by_windows_def round_end_window_def
          ex_game_round_over_still_open_def ex_game_routine_def ex_game_def)
  have d: "due_rule critical_period_by_windows 0 ex_game_round_over_still_open"
    unfolding due_rule_def using w
    by (simp add: ex_game_round_over_still_open_def ex_game_routine_def ex_game_def)
  have s: "\<not> critical_period_with_state 0 ex_game_round_over_still_open"
    by (simp add: critical_period_with_state_def round_start_window_def deadline_window_def
          round_has_ended_def ex_game_round_over_still_open_def ex_game_routine_def ex_game_def)
  have n: "\<not> due_rule critical_period_with_state 0 ex_game_round_over_still_open"
    unfolding due_rule_def using s
    by (simp add: ex_game_round_over_still_open_def ex_game_routine_def ex_game_def)
  have a: "game_is_active ex_game_round_over_still_open"
    by (simp add: ex_game_round_over_still_open_def ex_game_routine_def ex_game_def)
  show ?thesis
    using w d a n by (simp add: getGamesDueForSync_def gamesDue_loop_filter)
qed

text \<open>
  C4, amended. \<open>getGamesDueForSync\<close> selects, in table order, the active games that are
  due, where: a game never synced is due; a game in a critical period (round start
  within the next 2 hours, trade deadline within the next 2 hours, or round end within
  the past hour while \<open>round_state\<close> is \<open>Ended\<close> or \<open>EndedLastest\<close>) is due exactly
  when at least 30 minutes have elapsed since \<open>last_synced_at\<close>; any other game is due
  exactly when the elapsed minutes are at least its \<open>sync_interval_minutes\<close>.
\<close>

theorem gamesDueForSync_rule:
  "getGamesDueForSync now (Inr games)
     = filter (\<lambda>g. game_is_active g \<and> due_rule critical_period_with_state now g) games
   \<and> (last_synced_at game = None \<longrightarrow> due_rule critical_period_with_state now game)
   \<and> (last_synced_at game = Some lastSync \<and> critical_period_with_state now game \<longrightarrow>
        (due_rule critical_period_with_state now game
           \<longleftrightarrow> real_of_int (now - lastSync) / (1000 * 60) \<ge> 30))
   \<and> (last_synced_at game = Some lastSync \<and> \<not> critical_period_with_state now game \<longrightarrow>
        (due_rule critical_period_with_state now game
           \<longleftrightarrow> real_of_int (now - lastSync) / (1000 * 60)
                 \<ge> real_of_int (sync_interval_minutes game)))"
proof -
  have sel: "getGamesDueForSync now (Inr games)
     = filter (\<lambda>g. game_is_active g \<and> due_rule critical_period_with_state now g) games"
    by (simp add: getGamesDueForSync_def gamesDue_loop_filter conj_commute)
  have never: "last_synced_at game = None \<longrightarrow> due_rule critical_period_with_state now game"
    by (simp add: due_rule_def)
  have m30: "real_of_int d / (1000 * 60) \<ge> 30 \<longleftrightarrow> 30 * 60000 \<le> d" for d
    using minutes_at_least [of 30 d] by simp
  have crit: "last_synced_at game = Some lastSync \<and> critical_period_with_state now game \<longrightarrow>
        (due_rule critical_period_with_state now game
           \<longleftrightarrow> real_of_int (now - lastSync) / (1000 * 60) \<ge> 30)"
    unfolding m30 by (simp add: due_rule_def)
  have routine: "last_synced_at game = Some lastSync \<and> \<not> critical_period_with_state now game \<longrightarrow>
        (due_rule critical_period_with_state now game
           \<longleftrightarrow> real_of_int (now - lastSync) / (1000 * 60)
                 \<ge> real_of_int (sync_interval_minutes game))"
    unfolding minutes_at_least by (simp add: due_rule_def)
  show ?thesis using sel never crit routine by blast
qed

theorem gamesDueForSync_rule_witness:
  "getGamesDueForSync 0 (Inr [ex_game_round_soon, ex_game_routine, ex_game])
     = [ex_game_round_soon, ex_game]
   \<and> last_synced_at ex_game = None
   \<and> due_rule critical_period_with_state 0 ex_game
   \<and> critical_period_with_state 0 ex_game_round_soon
   \<and> due_rule critical_period_with_state 0 ex_game_round_soon
   \<and> \<not> critical_period_with_state 0 ex_game_routine
   \<and> \<not> due_rule critical_period_with_state 0 ex_game_routine"
proof -
  have l0: "last_synced_at ex_game = None"
    by (simp add: ex_game_def)
  have l1: "last_synced_at ex_game_round_soon = Some (- 2400000)"
    and l2: "last_synced_at ex_game_routine = Some (- 2400000)"
    and i2: "sync_interval_minutes ex_game_routine = 60"
    by (simp_all add: ex_game_round_soon_def ex_game_routine_def ex_game_def)
  have c1: "critical_period_with_state 0 ex_game_round_soon"
    by (simp add: critical_period_with_state_def round_start_window_def ex_game_round_soon_def
          ex_game_routine_def ex_game_def)
  have c2: "\<not> critical_period_with_state 0 ex_game_routine"
    by (simp add: critical_period_with_state_def round_start_window_def deadline_window_def
          round_end_window_def ex_game_routine_def ex_game_def)
  have d0: "due_rule critical_period_with_state 0 ex_game"
    using gamesDueForSync_rule [of 0 "[]" ex_game] l0 by blast
  have d1: "due_rule critical_period_with_state 0 ex_game_round_soon"
    using gamesDueForSync_rule [of 0 "[]" ex_game_round_soon "- 2400000"] l1 c1 by simp
  have d2: "\<not> due_rule critical_period_with_state 0 ex_game_routine"
    using gamesDueForSync_rule [of 0 "[]" ex_game_routine "- 2400000"] l2 c2 i2 by simp
  have act: "game_is_active ex_game_round_soon \<and> game_is_active ex_game_routine
             \<and> game_is_active ex_game"
    by (simp add: ex_game_round_soon_def ex_game_routine_def ex_game_def)
  have sel: "getGamesDueForSync 0 (Inr [ex_game_round_soon, ex_game_routine, ex_game])
     = [ex_game_round_soon, ex_game]"
    using gamesDueForSync_rule [of 0 "[ex_game_round_soon, ex_game_routine, ex_game]" ex_game]
          d0 d1 d2 act
    by simp
  show ?thesis using sel l0 d0 c1 d1 c2 d2 by blast
qed

lemma sync_failed_with_result:
  "fst (sync_failed_with env now game msg) = fail_with msg"
  by (simp add: sync_failed_with_def)

text \<open>
  Each phase makes only calls of its own kind.
\<close>

lemma syncGameDetails_events: "list_all is_meta_event (snd (syncGameDetails env now game))"
  by (simp add: syncGameDetails_def Let_def split: option.splits)

lemma elements_loop_events:
  "list_all is_catalog_event events \<Longrightarrow>
   list_all is_catalog_event (snd (elements_loop env now game elements i cnt events))"
proof (induction env now game elements i cnt events rule: elements_loop.induct)
  case (1 env now game elements i cnt events)
  show ?case
    using 1 by (subst elements_loop.simps) (simp add: Let_def)
qed

lemma syncElements_events: "list_all is_catalog_event (snd (syncElements env now game))"
proof (cases "res_data (swush_getElements env)")
  case None
  then show ?thesis by (simp add: syncElements_def)
next
  case (Some elements)
  obtain cnt evs where l: "elements_loop env now game elements 0 0 [GetElements] = (cnt, evs)"
    by (cases "elements_loop env now game elements 0 0 [GetElements]")
  have "list_all is_catalog_event (snd (elements_loop env now game elements 0 0 [GetElements]))"
    by (rule elements_loop_events) simp
  then have "list_all is_catalog_event evs" by (simp add: l)
  then show ?thesis by (simp add: syncElements_def Some l Let_def)
qed

lemma saveUsersPage_events:
  "list_all is_user_event (snd (saveUsersPage env now game us page))"
  by (simp add: saveUsersPage_def Let_def)

lemma users_page_step_events:
  assumes "list_all is_user_event (user_events st)"
  shows "list_all is_user_event (user_events (users_page_step env now game page st))"
proof (cases "res_data (swush_getUsers env page)")
  case None
  then show ?thesis using assms by (simp add: users_page_step_def)
next
  case (Some d)
  obtain ok cnt saved where sv: "saveUsersPage env now game (users d) page = ((ok, cnt), saved)"
    by (cases "saveUsersPage env now game (users d) page") auto
  have "list_all is_user_event (snd (saveUsersPage env now game (users d) page))"
    by (rule saveUsersPage_events)
  then have "list_all is_user_event saved" by (simp add: sv)
  then show ?thesis using assms by (simp add: users_page_step_def Some sv)
qed

lemma users_loop_events:
  "list_all is_user_event (user_events st) \<Longrightarrow>
   list_all is_user_event (user_events (users_loop env now game totalPages page st))"
proof (induction env now game totalPages page st rule: users_loop.induct)
  case (1 env now game totalPages page st)
  show ?case
    using 1 by (subst users_loop.simps) (simp add: users_page_step_events)
qed

lemma syncUsers_events: "list_all is_user_event (snd (syncUsers env now game))"
proof (cases "res_data (swush_getUsers env 1)")
  case None
  then show ?thesis by (simp add: syncUsers_def)
next
  case (Some d)
  obtain ok cnt saved where sv: "saveUsersPage env now game (users d) 1 = ((ok, cnt), saved)"
    by (cases "saveUsersPage env now game (users d) 1") auto
  have "list_all is_user_event (snd (saveUsersPage env now game (users d) 1))"
    by (rule saveUsersPage_events)
  then have saved: "list_all is_user_event saved" by (simp add: sv)
  have loop: "list_all is_user_event (user_events (users_loop env now game (pages d) 2 st1))"
    if "list_all is_user_event (user_events st1)" for st1
    using that by (rule users_loop_events)
  show ?thesis
    using saved by (simp add: syncUsers_def Some sv Let_def loop)
qed

text \<open>
  A failed phase carries the error message that the run rethrows.
\<close>

lemma syncGameDetails_error:
  "\<not> sr_success (fst (syncGameDetails env now game)) \<Longrightarrow>
   sr_error (fst (syncGameDetails env now game))
     = Some (thrown_message (fst (syncGameDetails env now game)))"
  by (simp add: syncGameDetails_def Let_def thrown_message_def fail_with_def
        split: option.splits if_splits)

lemma syncElements_error:
  "\<not> sr_success (fst (syncElements env now game)) \<Longrightarrow>
   sr_error (fst (syncElements env now game))
     = Some (thrown_message (fst (syncElements env now game)))"
  by (simp add: syncElements_def Let_def thrown_message_def fail_with_def
        split: option.splits if_splits prod.splits)

lemma syncUsers_first_failed:
  assumes "fetch_failed (swush_getUsers env 1)"
  shows "syncUsers env now game
           = (fail_with (message_or (res_error (swush_getUsers env 1)) ''Failed to fetch users''),
              [GetUsers 1])"
  using assms by (auto simp: syncUsers_def fetch_failed_def Let_def split: option.splits)

lemma syncUsers_first_ok:
  assumes "res_data (swush_getUsers env 1) = Some d"
      and "\<not> truthy (res_error (swush_getUsers env 1))"
  shows "syncUsers env now game
           = (if failure_rate_too_high (length (failedPages (users_final env now game d)))
                   (pages d) then
                (\<lparr> sr_success = False, sr_gamesSynced = None, sr_elementsSynced = None,
                   sr_usersSynced = Some (syncedCount (users_final env now game d)),
                   sr_error = Some (''Too many failed pages: ''
                      @ string_of_nat (length (failedPages (users_final env now game d)))
                      @ ''/'' @ string_of_int (pages d) @ '' (''
                      @ percent_text env (length (failedPages (users_final env now game d)))
                          (pages d) @ ''%)'') \<rparr>,
                 user_events (users_final env now game d))
              else
                (\<lparr> sr_success = True, sr_gamesSynced = None, sr_elementsSynced = None,
                   sr_usersSynced = Some (syncedCount (users_final env now game d)),
                   sr_error = None \<rparr>,
                 user_events (users_final env now game d)))"
proof -
  obtain ok cnt saved where sv: "saveUsersPage env now game (users d) 1 = ((ok, cnt), saved)"
    by (cases "saveUsersPage env now game (users d) 1") auto
  show ?thesis
    by (cases ok)
       (simp_all add: syncUsers_def assms sv Let_def users_final_def first_page_progress_def)
qed

lemma syncUsers_error:
  assumes "\<not> sr_success (fst (syncUsers env now game))"
  shows "sr_error (fst (syncUsers env now game))
     = Some (thrown_message (fst (syncUsers env now game)))"
proof (cases "fetch_failed (swush_getUsers env 1)")
  case True
  then show ?thesis
    by (simp add: syncUsers_first_failed thrown_message_def fail_with_def)
next
  case False
  then obtain d where d: "res_data (swush_getUsers env 1) = Some d"
    and t: "\<not> truthy (res_error (swush_getUsers env 1))"
    by (auto simp: fetch_failed_def)
  show ?thesis
    using assms by (simp add: syncUsers_first_ok [OF d t] thrown_message_def split: if_splits)
qed

text \<open>
  C5. A run performs the metadata phase, then the catalog phase, then the user phase,
  each phase's calls in one block after the insert of the \<open>sync_logs\<close> row. When a
  phase fails, no call of a later phase is made; the row created at the start (when the
  insert gave an id) is updated to \<open>failed\<close> with the phase's error message, the
  failure alert is raised with the game's key and name, that message and the
  \<open>last_synced_at\<close> the game had before the run, and the failure with that message
  is returned. When all three succeed, the row is updated to \<open>completed\<close> with the
  element and user counts of the run.
\<close>

theorem syncGame_phases:
  "(let gameResult = fst (syncGameDetails env now game);
              gameEvents = snd (syncGameDetails env now game);
              elementsResult = fst (syncElements env now game);
              elementEvents = snd (syncElements env now game);
              usersResult = fst (syncUsers env now game);
              userEvents = snd (syncUsers env now game);
              created =
                [SyncLogInsert
                   \<lparr> sl_game_id = game_id game, sl_sync_type = syncType,
                     sl_status = sync_started, sl_users_synced = 0, sl_elements_synced = 0,
                     sl_error_message = None, sl_started_at = now \<rparr>];
              finalize = (\<lambda>changes.
                case sync_log_id env of
                  None \<Rightarrow> []
                | Some logId \<Rightarrow> if logId = '''' then [] else [SyncLogUpdate logId changes]);
              failure = (\<lambda>msg.
                finalize
                  \<lparr> slu_status = sync_failed, slu_users_synced = None,
                    slu_elements_synced = None, slu_error_message = Some msg,
                    slu_completed_at = now \<rparr>
                @ [AlertSyncFailure
                     \<lparr> a_gameKey = game_key game, a_gameName = game_name game,
                       a_error = msg, a_timestamp = now,
                       a_lastSuccessfulSync = last_synced_at game \<rparr>])
          in list_all is_meta_event gameEvents
             \<and> list_all is_catalog_event elementEvents
             \<and> list_all is_user_event userEvents
             \<and> (\<not> sr_success gameResult \<longrightarrow>
                  sr_error gameResult = Some (thrown_message gameResult)
                  \<and> syncGame env now game syncType
                      = (fail_with (thrown_message gameResult),
                         created @ gameEvents @ failure (thrown_message gameResult)))
             \<and> (sr_success gameResult \<and> \<not> sr_success elementsResult \<longrightarrow>
                  sr_error elementsResult = Some (thrown_message elementsResult)
                  \<and> syncGame env now game syncType
                      = (fail_with (thrown_message elementsResult),
                         created @ gameEvents @ elementEvents
                         @ failure (thrown_message elementsResult)))
             \<and> (sr_success gameResult \<and> sr_success elementsResult
                  \<and> \<not> sr_success usersResult \<longrightarrow>
                  sr_error usersResult = Some (thrown_message usersResult)
                  \<and> syncGame env now game syncType
                      = (fail_with (thrown_message usersResult),
                         created @ gameEvents @ elementEvents @ userEvents
                         @ failure (thrown_message usersResult)))
             \<and> (sr_success gameResult \<and> sr_success elementsResult
                  \<and> sr_success usersResult \<longrightarrow>
                  syncGame env now game syncType
                    = (\<lparr> sr_success = True, sr_gamesSynced = Some 1,
                         sr_elementsSynced = sr_elementsSynced elementsResult,
                         sr_usersSynced = sr_usersSynced usersResult, sr_error = None \<rparr>,
                       created @ gameEvents @ elementEvents @ userEvents
                       @ finalize
                           \<lparr> slu_status = sync_completed,
                             slu_users_synced = Some (count_or_0 (sr_usersSynced usersResult)),
                             slu_elements_synced =
                               Some (count_or_0 (sr_elementsSynced elementsResult)),
                             slu_error_message = None, slu_completed_at = now \<rparr>)))"
proof -
  obtain gr ge where g: "syncGameDetails env now game = (gr, ge)"
    by (cases "syncGameDetails env now game")
  obtain er ee where e: "syncElements env now game = (er, ee)"
    by (cases "syncElements env now game")
  obtain ur ue where u: "syncUsers env now game = (ur, ue)"
    by (cases "syncUsers env now game")
  have kinds: "list_all is_meta_event ge \<and> list_all is_catalog_event ee
               \<and> list_all is_user_event ue"
    using syncGameDetails_events [of env now game] syncElements_events [of env now game]
          syncUsers_events [of env now game]
    by (simp add: g e u)
  have errs: "(\<not> sr_success gr \<longrightarrow> sr_error gr = Some (thrown_message gr))
              \<and> (\<not> sr_success er \<longrightarrow> sr_error er = Some (thrown_message er))
              \<and> (\<not> sr_success ur \<longrightarrow> sr_error ur = Some (thrown_message ur))"
    using syncGameDetails_error [of env now game] syncElements_error [of env now game]
          syncUsers_error [of env now game]
    by (simp add: g e u)
  show ?thesis
    using kinds errs
    by (simp add: Let_def syncGame_def g e u sync_failed_with_def split: option.splits)
qed

theorem syncGame_phases_witness:
  "sync_log_id ex_sync_env = Some ''log1''
   \<and> sr_success (fst (syncGame ex_sync_env 1000 ex_game_routine scheduled))
   \<and> last (snd (syncGame ex_sync_env 1000 ex_game_routine scheduled))
       = SyncLogUpdate ''log1''
           \<lparr> slu_status = sync_completed, slu_users_synced = Some 1,
             slu_elements_synced = Some 1, slu_error_message = None,
             slu_completed_at = 1000 \<rparr>
   \<and> syncGame ex_sync_env_catalog_down 1000 ex_game_routine scheduled
       = (fail_with ''HTTP 404: Not Found'',
          [SyncLogInsert
             \<lparr> sl_game_id = ''g1'', sl_sync_type = scheduled, sl_status = sync_started,
               sl_users_synced = 0, sl_elements_synced = 0, sl_error_message = None,
               sl_started_at = 1000 \<rparr>,
           GetGame,
           GameUpdate
             \<lparr> gu_swush_game_id = 42, gu_current_round = Some 5, gu_total_rounds = 1,
               gu_round_state = Some ''CurrentOpen'', gu_next_trade_deadline = Some 500,
               gu_current_round_start = Some 0, gu_current_round_end = Some 9000,
               gu_users_total = 1,
               gu_game_url = ''https://manager.aftonbladet.se/se/allsvenskan'',
               gu_last_synced_at = 1000 \<rparr>,
           GetElements,
           SyncLogUpdate ''log1''
             \<lparr> slu_status = sync_failed, slu_users_synced = None,
               slu_elements_synced = None,
               slu_error_message = Some ''HTTP 404: Not Found'',
               slu_completed_at = 1000 \<rparr>,
           AlertSyncFailure
             \<lparr> a_gameKey = ''allsvenskan'', a_gameName = ''Allsvenskan'',
               a_error = ''HTTP 404: Not Found'', a_timestamp = 1000,
               a_lastSuccessfulSync = Some (- 2400000) \<rparr>])"
proof -
  have l1: "sync_log_id ex_sync_env = Some ''log1''"
    and l2: "sync_log_id ex_sync_env_catalog_down = Some ''log1''"
    by (simp_all add: ex_sync_env_catalog_down_def ex_sync_env_def)
  have g: "sr_success (fst (syncGameDetails ex_sync_env 1000 ex_game_routine))"
    by code_simp
  have e: "sr_success (fst (syncElements ex_sync_env 1000 ex_game_routine))"
    and ec: "sr_elementsSynced (fst (syncElements ex_sync_env 1000 ex_game_routine)) = Some 1"
    by code_simp+
  have u: "sr_success (fst (syncUsers ex_sync_env 1000 ex_game_routine))"
    and uc: "sr_usersSynced (fst (syncUsers ex_sync_env 1000 ex_game_routine)) = Some 1"
    by code_simp+
  have gd: "syncGameDetails ex_sync_env_catalog_down 1000 ex_game_routine
     = (\<lparr> sr_success = True, sr_gamesSynced = Some 1, sr_elementsSynced = None,
          sr_usersSynced = None, sr_error = None \<rparr>,
        [GetGame,
         GameUpdate
           \<lparr> gu_swush_game_id = 42, gu_current_round = Some 5, gu_total_rounds = 1,
             gu_round_state = Some ''CurrentOpen'', gu_next_trade_deadline = Some 500,
             gu_current_round_start = Some 0, gu_current_round_end = Some 9000,
             gu_users_total = 1,
             gu_game_url = ''https://manager.aftonbladet.se/se/allsvenskan'',
             gu_last_synced_at = 1000 \<rparr>])"
    by code_simp
  have ed: "syncElements ex_sync_env_catalog_down 1000 ex_game_routine
     = (fail_with ''HTTP 404: Not Found'', [GetElements])"
    by code_simp
  have gm: "game_id ex_game_routine = ''g1'' \<and> game_key ex_game_routine = ''allsvenskan''
            \<and> game_name ex_game_routine = ''Allsvenskan''
            \<and> last_synced_at ex_game_routine = Some (- 2400000)"
    by (simp add: ex_game_routine_def ex_game_def)
  have ok: "sr_success (fst (syncGame ex_sync_env 1000 ex_game_routine scheduled))
     \<and> last (snd (syncGame ex_sync_env 1000 ex_game_routine scheduled))
       = SyncLogUpdate ''log1''
           \<lparr> slu_status = sync_completed, slu_users_synced = Some 1,
             slu_elements_synced = Some 1, slu_error_message = None,
             slu_completed_at = 1000 \<rparr>"
    using syncGame_phases [of ex_sync_env 1000 ex_game_routine scheduled] g e u
    by (simp add: Let_def ec uc count_or_0_def l1)
  have ko: "syncGame ex_sync_env_catalog_down 1000 ex_game_routine scheduled
       = (fail_with ''HTTP 404: Not Found'',
          [SyncLogInsert
             \<lparr> sl_game_id = ''g1'', sl_sync_type = scheduled, sl_status = sync_started,
               sl_users_synced = 0, sl_elements_synced = 0, sl_error_message = None,
               sl_started_at = 1000 \<rparr>]
          @ snd (syncGameDetails ex_sync_env_catalog_down 1000 ex_game_routine)
          @ [GetElements,
           SyncLogUpdate ''log1''
             \<lparr> slu_status = sync_failed, slu_users_synced = None,
               slu_elements_synced = None,
               slu_error_message = Some ''HTTP 404: Not Found'',
               slu_completed_at = 1000 \<rparr>,
           AlertSyncFailure
             \<lparr> a_gameKey = ''allsvenskan'', a_gameName = ''Allsvenskan'',
               a_error = ''HTTP 404: Not Found'', a_timestamp = 1000,
               a_lastSuccessfulSync = Some (- 2400000) \<rparr>])"
    using syncGame_phases [of ex_sync_env_catalog_down 1000 ex_game_routine scheduled]
    by (simp add: Let_def gd ed gm thrown_message_def fail_with_def l2)
  show ?thesis
    using l1 ok ko by (simp add: gd)
qed

lemma persisted_user_rows_append:
  "persisted_user_rows (xs @ ys) = persisted_user_rows xs @ persisted_user_rows ys"
  by (induction xs rule: persisted_user_rows.induct) simp_all

lemma saveUsersPage_cases:
  "saveUsersPage env now game us page
     = (if \<not> list_ex (\<lambda>user. truthy (u_externalId user)) us then ((True, 0), [])
        else if users_upsert_rejected env page then
          ((False, 0),
           [UsersUpsert page
              (map (user_upsert now game) (filter (\<lambda>user. truthy (u_externalId user)) us))
              False])
        else
          ((True, length (filter (\<lambda>user. truthy (u_externalId user)) us)),
           [UsersUpsert page
              (map (user_upsert now game) (filter (\<lambda>user. truthy (u_externalId user)) us))
              True]))"
  by (auto simp: saveUsersPage_def Let_def list_ex_iff filter_empty_conv)

lemma saveUsersPage_failed:
  "\<not> fst (fst (saveUsersPage env now game us page))
     \<longleftrightarrow> list_ex (\<lambda>user. truthy (u_externalId user)) us \<and> users_upsert_rejected env page"
  by (simp add: saveUsersPage_cases)

lemma saveUsersPage_count:
  "snd (fst (saveUsersPage env now game us page))
     = length (persisted_user_rows (snd (saveUsersPage env now game us page)))"
  by (simp add: saveUsersPage_cases)

text \<open>
  One page of the loop: the page joins \<open>failedPages\<close> exactly when it has failed, and
  \<open>syncedCount\<close> keeps counting the accepted rows.
\<close>

lemma users_page_step_failedPages:
  "failedPages (users_page_step env now game page st)
     = failedPages st @ (if page_failed env page then [page] else [])"
proof (cases "res_data (swush_getUsers env page)")
  case None
  then show ?thesis by (simp add: users_page_step_def page_failed_def)
next
  case (Some d)
  obtain ok cnt saved where sv: "saveUsersPage env now game (users d) page = ((ok, cnt), saved)"
    by (cases "saveUsersPage env now game (users d) page") auto
  have ok: "\<not> ok \<longleftrightarrow> list_ex (\<lambda>user. truthy (u_externalId user)) (users d)
                        \<and> users_upsert_rejected env page"
    using saveUsersPage_failed [of env now game "users d" page] by (simp add: sv)
  show ?thesis
    using ok by (auto simp: users_page_step_def page_failed_def Some sv)
qed

lemma users_page_step_count:
  assumes "syncedCount st = length (persisted_user_rows (user_events st))"
  shows "syncedCount (users_page_step env now game page st)
     = length (persisted_user_rows (user_events (users_page_step env now game page st)))"
proof (cases "res_data (swush_getUsers env page)")
  case None
  then show ?thesis
    using assms by (simp add: users_page_step_def persisted_user_rows_append)
next
  case (Some d)
  obtain ok cnt saved where sv: "saveUsersPage env now game (users d) page = ((ok, cnt), saved)"
    by (cases "saveUsersPage env now game (users d) page") auto
  have cnt: "cnt = length (persisted_user_rows saved)"
    using saveUsersPage_count [of env now game "users d" page] by (simp add: sv)
  have bad: "\<not> ok \<Longrightarrow> persisted_user_rows saved = []"
    using sv by (auto simp: saveUsersPage_cases split: if_splits)
  show ?thesis
    using assms cnt bad
    by (auto simp: users_page_step_def Some sv persisted_user_rows_append)
qed

lemma users_loop_failedPages:
  "failedPages (users_loop env now game totalPages page st)
     = failedPages st @ filter (page_failed env) [page..totalPages]"
proof (induction env now game totalPages page st rule: users_loop.induct)
  case (1 env now game totalPages page st)
  show ?case
  proof (cases "page \<le> totalPages")
    case True
    have up: "[page..totalPages] = page # [page + 1..totalPages]"
      using True by (simp add: upto_rec1)
    show ?thesis
      using True 1 [OF True]
      by (subst users_loop.simps) (simp add: users_page_step_failedPages up)
  next
    case False
    then show ?thesis by (subst users_loop.simps) simp
  qed
qed

lemma users_loop_count:
  "syncedCount st = length (persisted_user_rows (user_events st)) \<Longrightarrow>
   syncedCount (users_loop env now game totalPages page st)
     = length (persisted_user_rows (user_events (users_loop env now game totalPages page st)))"
proof (induction env now game totalPages page st rule: users_loop.induct)
  case (1 env now game totalPages page st)
  show ?case
  proof (cases "page \<le> totalPages")
    case True
    show ?thesis
      using True 1
      by (subst (1 2) users_loop.simps) (simp add: users_page_step_count)
  next
    case False
    then show ?thesis using 1 by (subst (1 2) users_loop.simps) simp
  qed
qed

lemma first_page_progress_props:
  assumes "res_data (swush_getUsers env 1) = Some d"
      and "\<not> truthy (res_error (swush_getUsers env 1))"
  shows "failedPages (first_page_progress env now game d)
           = (if page_failed env 1 then [1] else [])"
    and "syncedCount (first_page_progress env now game d)
           = length (persisted_user_rows (user_events (first_page_progress env now game d)))"
proof -
  show "failedPages (first_page_progress env now game d)
           = (if page_failed env 1 then [1] else [])"
    using assms saveUsersPage_failed [of env now game "users d" 1]
    by (auto simp: first_page_progress_def page_failed_def)
  show "syncedCount (first_page_progress env now game d)
           = length (persisted_user_rows (user_events (first_page_progress env now game d)))"
    using saveUsersPage_count [of env now game "users d" 1]
    by (auto simp: first_page_progress_def saveUsersPage_cases split: if_splits)
qed

lemma users_final_props:
  assumes "res_data (swush_getUsers env 1) = Some d"
      and "\<not> truthy (res_error (swush_getUsers env 1))"
      and "1 \<le> pages d"
  shows "failedPages (users_final env now game d) = filter (page_failed env) [1..pages d]"
    and "syncedCount (users_final env now game d)
           = length (persisted_user_rows (user_events (users_final env now game d)))"
proof -
  have up: "[1..pages d] = 1 # [2..pages d]"
    using assms(3) by (simp add: upto_rec1)
  show "failedPages (users_final env now game d) = filter (page_failed env) [1..pages d]"
    by (simp add: users_final_def users_loop_failedPages
          first_page_progress_props(1) [OF assms(1,2)] up)
  show "syncedCount (users_final env now game d)
           = length (persisted_user_rows (user_events (users_final env now game d)))"
    unfolding users_final_def
    by (rule users_loop_count) (rule first_page_progress_props(2) [OF assms(1,2)])
qed

text \<open>
  With eleven pages of which only the first cannot be fetched, one page in eleven has
  failed, yet the phase fails at once, after the single call for page 1 and without a
  count: the page total is learned from page 1, so the threshold is not reached.
\<close>

theorem syncUsers_first_page_unfetched:
  "length (filter (page_failed (ex_env_11_pages [1])) [1..11]) = 1
   \<and> \<not> sr_success (fst (syncUsers (ex_env_11_pages [1]) 1000 ex_game))
   \<and> sr_usersSynced (fst (syncUsers (ex_env_11_pages [1]) 1000 ex_game)) = None
   \<and> snd (syncUsers (ex_env_11_pages [1]) 1000 ex_game) = [GetUsers 1]"
proof -
  have one: "length (filter (page_failed (ex_env_11_pages [1])) [1..11]) = 1"
    by code_simp
  have "fetch_failed (swush_getUsers (ex_env_11_pages [1]) 1)"
    by (simp add: fetch_failed_def ex_env_11_pages_def error_response_def)
  then have "syncUsers (ex_env_11_pages [1]) 1000 ex_game
               = (fail_with (message_or (res_error (swush_getUsers (ex_env_11_pages [1]) 1))
                    ''Failed to fetch users''), [GetUsers 1])"
    by (rule syncUsers_first_failed)
  then show ?thesis using one by (simp add: fail_with_def)
qed

text \<open>
  C2, amended. For a user phase whose first page was fetched and which runs over
  \<open>totalPages\<close> pages (at least one): the phase succeeds exactly when the number of
  failed pages divided by \<open>totalPages\<close> is not above one tenth, so with 11 pages one
  failed page is a success and two are a failure; and in both cases the reported
  \<open>usersSynced\<close> is the number of rows that the store accepted.
\<close>

theorem syncUsers_threshold:
  assumes "res_data (swush_getUsers env 1) = Some d"
      and "\<not> truthy (res_error (swush_getUsers env 1))"
      and "1 \<le> pages d"
  shows "(sr_success (fst (syncUsers env now game))
            \<longleftrightarrow> \<not> real (length (filter (page_failed env) [1..pages d]))
                    / real_of_int (pages d) > 1 / 10)
       \<and> sr_usersSynced (fst (syncUsers env now game))
           = Some (length (persisted_user_rows (snd (syncUsers env now game))))
       \<and> (pages d = 11 \<and> length (filter (page_failed env) [1..11]) = 1 \<longrightarrow>
            sr_success (fst (syncUsers env now game)))
       \<and> (pages d = 11 \<and> length (filter (page_failed env) [1..11]) = 2 \<longrightarrow>
            \<not> sr_success (fst (syncUsers env now game)))"
proof -
  note fin = users_final_props [OF assms, of now game]
  have nz: "pages d \<noteq> 0" using assms(3) by simp
  have a: "sr_success (fst (syncUsers env now game))
            \<longleftrightarrow> \<not> real (length (filter (page_failed env) [1..pages d]))
                    / real_of_int (pages d) > 1 / 10"
    by (simp add: syncUsers_first_ok [OF assms(1,2)] fin(1) failure_rate_too_high_def nz)
  have b: "sr_usersSynced (fst (syncUsers env now game))
           = Some (length (persisted_user_rows (snd (syncUsers env now game))))"
    by (simp add: syncUsers_first_ok [OF assms(1,2)] fin(2))
  have c: "pages d = 11 \<and> length (filter (page_failed env) [1..11]) = 1 \<longrightarrow>
            sr_success (fst (syncUsers env now game))"
    using a by auto
  have e: "pages d = 11 \<and> length (filter (page_failed env) [1..11]) = 2 \<longrightarrow>
            \<not> sr_success (fst (syncUsers env now game))"
    using a by auto
  show ?thesis using a b c e by blast
qed

theorem syncUsers_threshold_witness:
  "sr_success (fst (syncUsers (ex_env_11_pages [3]) 1000 ex_game))
   \<and> sr_usersSynced (fst (syncUsers (ex_env_11_pages [3]) 1000 ex_game)) = Some 10
   \<and> \<not> sr_success (fst (syncUsers (ex_env_11_pages [3, 7]) 1000 ex_game))
   \<and> sr_usersSynced (fst (syncUsers (ex_env_11_pages [3, 7]) 1000 ex_game)) = Some 9"
proof -
  let ?d = "\<lparr> usersTotal = 11, pages = 11, users = [ex_user] \<rparr>"
  have d1: "res_data (swush_getUsers (ex_env_11_pages [3]) 1) = Some ?d"
    and t1: "\<not> truthy (res_error (swush_getUsers (ex_env_11_pages [3]) 1))"
    and d2: "res_data (swush_getUsers (ex_env_11_pages [3, 7]) 1) = Some ?d"
    and t2: "\<not> truthy (res_error (swush_getUsers (ex_env_11_pages [3, 7]) 1))"
    by (simp_all add: ex_env_11_pages_def ok_response_def truthy_def)
  have p: "1 \<le> pages ?d" and p11: "pages ?d = 11"
    by simp_all
  have f1: "length (filter (page_failed (ex_env_11_pages [3])) [1..11]) = 1"
    by code_simp
  have f2: "length (filter (page_failed (ex_env_11_pages [3, 7])) [1..11]) = 2"
    by code_simp
  have c1: "length (persisted_user_rows (snd (syncUsers (ex_env_11_pages [3]) 1000 ex_game)))
              = 10"
    by code_simp
  have c2: "length (persisted_user_rows (snd (syncUsers (ex_env_11_pages [3, 7]) 1000 ex_game)))
              = 9"
    by code_simp
  show ?thesis
    using syncUsers_threshold [OF d1 t1 p, of 1000 ex_game]
          syncUsers_threshold [OF d2 t2 p, of 1000 ex_game] f1 f2 c1 c2
    by simp
qed

text \<open>
  The batch loop issues exactly the batches of \<open>accepted_batches\<close> to the store.
\<close>

lemma accepted_element_rows_append:
  "accepted_element_rows (xs @ ys) = accepted_element_rows xs @ accepted_element_rows ys"
  by (induction xs rule: accepted_element_rows.induct) simp_all

lemma elements_loop_accepted:
  "accepted_element_rows (snd (elements_loop env now game elements i cnt events))
     = accepted_element_rows events @ accepted_batches env now game elements i"
proof (induction env now game elements i cnt events rule: elements_loop.induct)
  case (1 env now game elements i cnt events)
  show ?case
  proof (cases "i < length elements")
    case False
    then show ?thesis
      by (subst elements_loop.simps, subst accepted_batches.simps) simp
  next
    case True
    show ?thesis
    proof (cases "elements_upsert_rejected env i")
      case rej: True
      show ?thesis
        using True rej 1(1) [OF True refl refl rej]
        by (subst elements_loop.simps, subst accepted_batches.simps)
           (simp add: Let_def accepted_element_rows_append)
    next
      case acc: False
      show ?thesis
        using True acc 1(2) [OF True refl refl acc]
        by (subst elements_loop.simps, subst accepted_batches.simps)
           (simp add: Let_def accepted_element_rows_append)
    qed
  qed
qed

lemma syncElements_accepted:
  assumes "res_data (swush_getElements env) = Some elements"
      and "\<not> truthy (res_error (swush_getElements env))"
  shows "accepted_element_rows (snd (syncElements env now game))
           = accepted_batches env now game elements 0"
    and "sr_success (fst (syncElements env now game))"
proof -
  obtain cnt evs where l: "elements_loop env now game elements 0 0 [GetElements] = (cnt, evs)"
    by (cases "elements_loop env now game elements 0 0 [GetElements]")
  have "accepted_element_rows (snd (elements_loop env now game elements 0 0 [GetElements]))
          = accepted_batches env now game elements 0"
    by (simp add: elements_loop_accepted)
  then show "accepted_element_rows (snd (syncElements env now game))
           = accepted_batches env now game elements 0"
    by (simp add: syncElements_def assms l Let_def)
  show "sr_success (fst (syncElements env now game))"
    by (simp add: syncElements_def assms l Let_def)
qed

lemma element_upsert_ids:
  "map e_element_id (map (element_upsert now game) xs) = map elementId xs"
  by (simp add: element_upsert_def comp_def)

lemma accepted_batches_game:
  "p \<in> set (accepted_batches env now game elements i) \<Longrightarrow> e_game_id p = game_id game"
proof (induction env now game elements i rule: accepted_batches.induct)
  case (1 env now game elements i)
  show ?case
  proof (cases "i < length elements")
    case False
    then show ?thesis using "1.prems" by (subst (asm) accepted_batches.simps) simp
  next
    case True
    have "p \<in> set (map (element_upsert now game) (take BATCH_SIZE (drop i elements)))
          \<or> p \<in> set (accepted_batches env now game elements (i + BATCH_SIZE))"
      using "1.prems" True
      by (subst (asm) accepted_batches.simps) (auto split: if_splits)
    then show ?thesis
    proof
      assume "p \<in> set (map (element_upsert now game) (take BATCH_SIZE (drop i elements)))"
      then show ?thesis by (auto simp: element_upsert_def)
    next
      assume "p \<in> set (accepted_batches env now game elements (i + BATCH_SIZE))"
      then show ?thesis by (rule 1(1) [OF True])
    qed
  qed
qed

lemma accepted_batches_ids:
  "set (map e_element_id (accepted_batches env now game elements i))
     \<subseteq> set (map elementId (drop i elements))"
proof (induction env now game elements i rule: accepted_batches.induct)
  case (1 env now game elements i)
  show ?case
  proof (cases "i < length elements")
    case False
    then show ?thesis by (subst accepted_batches.simps) simp
  next
    case True
    have split: "drop i elements
                   = take BATCH_SIZE (drop i elements) @ drop (i + BATCH_SIZE) elements"
      by (metis add.commute append_take_drop_id drop_drop)
    have rest: "set (map e_element_id (accepted_batches env now game elements (i + BATCH_SIZE)))
                  \<subseteq> set (map elementId (drop (i + BATCH_SIZE) elements))"
      by (rule 1 [OF True])
    have whole: "set (map elementId (drop i elements))
                   = set (map elementId (take BATCH_SIZE (drop i elements)))
                     \<union> set (map elementId (drop (i + BATCH_SIZE) elements))"
      by (subst split) simp
    have unfolded: "set (map e_element_id (accepted_batches env now game elements i))
            \<subseteq> set (map elementId (take BATCH_SIZE (drop i elements)))
              \<union> set (map e_element_id (accepted_batches env now game elements (i + BATCH_SIZE)))"
      using True
      by (subst accepted_batches.simps) (auto simp: element_upsert_def)
    show ?thesis
      using unfolded rest unfolding whole by blast
  qed
qed

lemma accepted_batches_distinct:
  "distinct (map elementId elements) \<Longrightarrow>
   distinct (map e_element_id (accepted_batches env now game elements i))"
proof (induction env now game elements i rule: accepted_batches.induct)
  case (1 env now game elements i)
  show ?case
  proof (cases "i < length elements")
    case False
    then show ?thesis by (subst accepted_batches.simps) simp
  next
    case True
    have split: "drop i elements
                   = take BATCH_SIZE (drop i elements) @ drop (i + BATCH_SIZE) elements"
      by (metis add.commute append_take_drop_id drop_drop)
    have "distinct (drop i (map elementId elements))"
      using "1.prems" by (rule distinct_drop)
    then have d: "distinct (map elementId (drop i elements))"
      by (simp only: drop_map)
    have "distinct (map elementId (take BATCH_SIZE (drop i elements))
                    @ map elementId (drop (i + BATCH_SIZE) elements))"
      using d by (subst (asm) split) (simp only: map_append)
    then have parts:
      "distinct (map elementId (take BATCH_SIZE (drop i elements)))"
      "set (map elementId (take BATCH_SIZE (drop i elements)))
         \<inter> set (map elementId (drop (i + BATCH_SIZE) elements)) = {}"
      by (simp_all only: distinct_append)
    have ids: "set (map e_element_id (accepted_batches env now game elements (i + BATCH_SIZE)))
                 \<subseteq> set (map elementId (drop (i + BATCH_SIZE) elements))"
      by (rule accepted_batches_ids)
    have rest: "distinct (map e_element_id (accepted_batches env now game elements (i + BATCH_SIZE)))"
      by (rule 1(1) [OF True "1.prems"])
    have disj: "set (map elementId (take BATCH_SIZE (drop i elements)))
         \<inter> set (map e_element_id (accepted_batches env now game elements (i + BATCH_SIZE))) = {}"
      using parts(2) ids by blast
    have eq: "map e_element_id (accepted_batches env now game elements i)
          = (if elements_upsert_rejected env i then []
             else map elementId (take BATCH_SIZE (drop i elements)))
            @ map e_element_id (accepted_batches env now game elements (i + BATCH_SIZE))"
      using True by (subst accepted_batches.simps) (simp add: element_upsert_def)
    show ?thesis
      unfolding eq using parts(1) rest disj by (simp only: distinct_append) simp
  qed
qed

lemma accepted_batches_member:
  assumes "i \<le> b" "(b - i) mod BATCH_SIZE = 0" "b \<le> n" "n < b + BATCH_SIZE"
      and "n < length elements" "\<not> elements_upsert_rejected env b"
  shows "element_upsert now game (elements ! n)
           \<in> set (accepted_batches env now game elements i)"
  using assms
proof (induction env now game elements i rule: accepted_batches.induct)
  case (1 env now game elements i)
  have lt: "i < length elements" using 1(2-) by simp
  show ?case
  proof (cases "b = i")
    case True
    have "n - i < length elements - i" "n - i < BATCH_SIZE"
      using 1(2-) True by arith+
    then have "n - i < length (take BATCH_SIZE (drop i elements))"
      by simp
    moreover have "take BATCH_SIZE (drop i elements) ! (n - i) = elements ! n"
      using 1(2-) True \<open>n - i < BATCH_SIZE\<close> by simp
    ultimately have "elements ! n \<in> set (take BATCH_SIZE (drop i elements))"
      by (metis nth_mem)
    then show ?thesis
      using 1(2-) True lt by (subst accepted_batches.simps) simp
  next
    case False
    have ge: "i + BATCH_SIZE \<le> b"
    proof (rule ccontr)
      assume "\<not> i + BATCH_SIZE \<le> b"
      then have "b - i < BATCH_SIZE" using 1(2) by simp
      then have "(b - i) mod BATCH_SIZE = b - i" by simp
      then show False using 1(2,3) False by simp
    qed
    have md: "(b - (i + BATCH_SIZE)) mod BATCH_SIZE = 0"
    proof -
      have "b - i = (b - (i + BATCH_SIZE)) + BATCH_SIZE" using ge by simp
      then show ?thesis using 1(3) by (metis mod_add_self2)
    qed
    have "element_upsert now game (elements ! n)
            \<in> set (accepted_batches env now game elements (i + BATCH_SIZE))"
      using 1(1) [OF lt ge md] 1(4-) by simp
    then show ?thesis
      using lt by (subst accepted_batches.simps) simp
  qed
qed

text \<open>
  Looking a key up after one upsert and after a list of upserts with distinct keys.
\<close>

lemma upsert_element_same:
  "upsert_element p tbl (e_game_id p, e_element_id p)
     = Some (ElementUpsert.extend p
               (ElementRow.fields (fst (kept_flags (tbl (e_game_id p, e_element_id p))))
                                  (snd (kept_flags (tbl (e_game_id p, e_element_id p))))))"
  by (simp add: upsert_element_def kept_flags_def split: option.splits)

lemma upsert_element_other:
  "k \<noteq> (e_game_id p, e_element_id p) \<Longrightarrow> upsert_element p tbl k = tbl k"
  by (simp add: upsert_element_def)

lemma fold_upsert_other:
  "k \<notin> set (map (\<lambda>p. (e_game_id p, e_element_id p)) ps) \<Longrightarrow>
   fold upsert_element ps tbl k = tbl k"
proof (induction ps arbitrary: tbl)
  case Nil
  then show ?case by simp
next
  case (Cons q ps)
  then show ?case by (simp add: upsert_element_other)
qed

lemma fold_upsert_member:
  assumes "distinct (map (\<lambda>p. (e_game_id p, e_element_id p)) ps)" "p \<in> set ps"
  shows "fold upsert_element ps tbl (e_game_id p, e_element_id p)
     = Some (ElementUpsert.extend p
               (ElementRow.fields (fst (kept_flags (tbl (e_game_id p, e_element_id p))))
                                  (snd (kept_flags (tbl (e_game_id p, e_element_id p))))))"
  using assms
proof (induction ps arbitrary: tbl)
  case Nil
  then show ?case by simp
next
  case (Cons q ps)
  show ?case
  proof (cases "p = q")
    case True
    have "(e_game_id p, e_element_id p) \<notin> set (map (\<lambda>p. (e_game_id p, e_element_id p)) ps)"
      using Cons.prems(1) True by simp
    then show ?thesis
      using True by (simp add: fold_upsert_other upsert_element_same)
  next
    case False
    then have mem: "p \<in> set ps" using Cons.prems(2) by simp
    have d: "distinct (map (\<lambda>p. (e_game_id p, e_element_id p)) ps)"
      using Cons.prems(1) by simp
    have ne: "(e_game_id p, e_element_id p) \<noteq> (e_game_id q, e_element_id q)"
    proof
      assume "(e_game_id p, e_element_id p) = (e_game_id q, e_element_id q)"
      then have "(e_game_id q, e_element_id q)
                   \<in> (\<lambda>p. (e_game_id p, e_element_id p)) ` set ps"
        using mem by (metis (mono_tags, lifting) rev_image_eqI)
      then show False using Cons.prems(1) by simp
    qed
    show ?thesis
      using Cons.IH [OF d mem, of "upsert_element q tbl"] ne
      by (simp add: upsert_element_other)
  qed
qed

lemma accepted_batches_keys_distinct:
  assumes "distinct (map elementId elements)"
  shows "distinct (map (\<lambda>p. (e_game_id p, e_element_id p))
                     (accepted_batches env now game elements i))"
proof -
  have d: "distinct (map e_element_id (accepted_batches env now game elements i))"
    using assms by (rule accepted_batches_distinct)
  have "inj_on (\<lambda>p. (e_game_id p, e_element_id p)) (set (accepted_batches env now game elements i))
        \<and> distinct (accepted_batches env now game elements i)"
    using d by (auto simp: distinct_map inj_on_def)
  then show ?thesis by (simp add: distinct_map)
qed

text \<open>
  The same successful catalog sync of element 7 leaves the row flagged injured when
  the stored row was flagged, and unflagged when there was no row: the flag of the
  persisted row is what the table held before, not a value from upstream.
\<close>

theorem syncElements_left_over_flags:
  "sr_success (fst (syncElements ex_sync_env 1000 ex_game))
   \<and> map_option is_injured
       (elements_after (snd (syncElements ex_sync_env 1000 ex_game)) ex_elements_table
          (''g1'', 7)) = Some True
   \<and> map_option is_injured
       (elements_after (snd (syncElements ex_sync_env 1000 ex_game)) Map.empty
          (''g1'', 7)) = Some False"
proof -
  have d: "res_data (swush_getElements ex_sync_env) = Some [ex_element]"
    and t: "\<not> truthy (res_error (swush_getElements ex_sync_env))"
    by (simp_all add: ex_sync_env_def ok_response_def truthy_def)
  have acc: "accepted_batches ex_sync_env 1000 ex_game [ex_element] 0
               = [element_upsert 1000 ex_game ex_element]"
    by (subst accepted_batches.simps, subst accepted_batches.simps)
       (simp add: BATCH_SIZE_def ex_sync_env_def)
  have key: "e_game_id (element_upsert 1000 ex_game ex_element) = ''g1''
             \<and> e_element_id (element_upsert 1000 ex_game ex_element) = 7"
    by (simp add: element_upsert_def ex_game_def ex_element_def)
  show ?thesis
    using syncElements_accepted(2) [OF d t, of 1000 ex_game]
    by (simp add: elements_after_def syncElements_accepted(1) [OF d t] acc upsert_element_def
          key ex_elements_table_def ElementUpsert.defs ElementRow.defs)
qed

text \<open>
  C8, amended. After a catalog sync whose fetch succeeded, for every fetched element
  (of a list with distinct element ids) whose batch the store accepted, the row under
  the key (game, element id) carries the upstream metrics \<open>trend\<close>, \<open>growth\<close>,
  \<open>total_growth\<close>, \<open>value\<close> and \<open>popularity\<close>, the names, team and image of the
  element and the time of the sync, whatever the row held before; the flags
  \<open>is_injured\<close> and \<open>is_suspended\<close> are not written by the sync and are those the row
  held before, or false for a new row.
\<close>

theorem syncElements_replaces_metrics:
  assumes fetched: "res_data (swush_getElements env) = Some elements"
                   "\<not> truthy (res_error (swush_getElements env))"
      and ids: "distinct (map elementId elements)"
      and n: "n < length elements"
      and accepted: "\<not> elements_upsert_rejected env (n div BATCH_SIZE * BATCH_SIZE)"
  shows "\<exists>row. elements_after (snd (syncElements env now game)) tbl
                  (game_id game, elementId (elements ! n)) = Some row
           \<and> e_trend row = trend (elements ! n)
           \<and> e_growth row = growth (elements ! n)
           \<and> e_total_growth row = totalGrowth (elements ! n)
           \<and> e_value row = el_value (elements ! n)
           \<and> e_popularity row = popularity (elements ! n)
           \<and> e_short_name row = shortName (elements ! n)
           \<and> e_full_name row = fullName (elements ! n)
           \<and> e_team_name row = env_or_empty (teamName (elements ! n))
           \<and> e_image_url row = imageUrl (elements ! n)
           \<and> e_updated_at row = now
           \<and> (is_injured row, is_suspended row)
               = kept_flags (tbl (game_id game, elementId (elements ! n)))"
proof -
  let ?p = "element_upsert now game (elements ! n)"
  let ?ps = "accepted_batches env now game elements 0"
  have mem: "?p \<in> set ?ps"
  proof (rule accepted_batches_member [where b = "n div BATCH_SIZE * BATCH_SIZE"])
    show "0 \<le> n div BATCH_SIZE * BATCH_SIZE" by simp
    show "(n div BATCH_SIZE * BATCH_SIZE - 0) mod BATCH_SIZE = 0" by simp
    show "n div BATCH_SIZE * BATCH_SIZE \<le> n" by simp
    show "n < n div BATCH_SIZE * BATCH_SIZE + BATCH_SIZE"
      by (simp add: BATCH_SIZE_def)
    show "n < length elements" by (rule n)
    show "\<not> elements_upsert_rejected env (n div BATCH_SIZE * BATCH_SIZE)" by (rule accepted)
  qed
  have key: "(e_game_id ?p, e_element_id ?p) = (game_id game, elementId (elements ! n))"
    by (simp add: element_upsert_def)
  have "fold upsert_element ?ps tbl (e_game_id ?p, e_element_id ?p)
     = Some (ElementUpsert.extend ?p
               (ElementRow.fields (fst (kept_flags (tbl (e_game_id ?p, e_element_id ?p))))
                                  (snd (kept_flags (tbl (e_game_id ?p, e_element_id ?p))))))"
    using accepted_batches_keys_distinct [OF ids] mem by (rule fold_upsert_member)
  then have "elements_after (snd (syncElements env now game)) tbl
               (game_id game, elementId (elements ! n))
     = Some (ElementUpsert.extend ?p
               (ElementRow.fields
                  (fst (kept_flags (tbl (game_id game, elementId (elements ! n)))))
                  (snd (kept_flags (tbl (game_id game, elementId (elements ! n)))))))"
    by (simp add: elements_after_def syncElements_accepted(1) [OF fetched] key)
  then show ?thesis
    by (simp add: element_upsert_def ElementUpsert.defs ElementRow.defs)
qed

theorem syncElements_replaces_metrics_witness:
  "res_data (swush_getElements ex_sync_env) = Some [ex_element]
   \<and> map_option e_trend
       (elements_after (snd (syncElements ex_sync_env 1000 ex_game)) ex_elements_table
          (''g1'', 7)) = Some 3
   \<and> map_option e_updated_at
       (elements_after (snd (syncElements ex_sync_env 1000 ex_game)) ex_elements_table
          (''g1'', 7)) = Some 1000
   \<and> map_option (\<lambda>row. (is_injured row, is_suspended row))
       (elements_after (snd (syncElements ex_sync_env 1000 ex_game)) ex_elements_table
          (''g1'', 7)) = Some (True, True)"
proof -
  have d: "res_data (swush_getElements ex_sync_env) = Some [ex_element]"
    and t: "\<not> truthy (res_error (swush_getElements ex_sync_env))"
    and a: "\<not> elements_upsert_rejected ex_sync_env (0 div BATCH_SIZE * BATCH_SIZE)"
    by (simp_all add: ex_sync_env_def ok_response_def truthy_def)
  have i: "distinct (map elementId [ex_element])" and n: "(0::nat) < length [ex_element]"
    by simp_all
  have k: "game_id ex_game = ''g1''" "elementId ([ex_element] ! 0) = 7"
          "trend ([ex_element] ! 0) = 3"
    by (simp_all add: ex_game_def ex_element_def)
  have f: "kept_flags (ex_elements_table (''g1'', 7)) = (True, True)"
    by (simp add: kept_flags_def ex_elements_table_def ElementUpsert.defs ElementRow.defs)
  obtain row where
    "elements_after (snd (syncElements ex_sync_env 1000 ex_game)) ex_elements_table
       (''g1'', 7) = Some row"
    "e_trend row = 3" "e_updated_at row = 1000" "(is_injured row, is_suspended row) = (True, True)"
    using syncElements_replaces_metrics [OF d t i n a, of 1000 ex_game ex_elements_table]
    unfolding k f by blast
  then show ?thesis using d by simp
qed

end
